theory Spec2Isabelle
  imports Main
begin

section \<open>Strings and numbers of the host language\<close>

text \<open>
  Coordinates, channel values and key codes are integral in every run of the renderer, so
  a JavaScript number is an \<open>int\<close> here and \<open>NaN\<close> is \<open>None\<close>. A string is a list of
  code units. Pixel positions of containers and sprites (products with \<open>cos\<close> and \<open>sin\<close>
  of \<open>5\<pi>/12\<close>) are floating point and are left out of the scene model.
\<close>

definition isStrWhiteSpaceChar :: "char \<Rightarrow> bool" where
  "isStrWhiteSpaceChar c =
     (c \<in> set [CHR 0x09, CHR 0x0A, CHR 0x0B, CHR 0x0C, CHR 0x0D, CHR 0x20, CHR 0xA0])"

definition digitValue :: "char \<Rightarrow> nat option" where
  "digitValue c =
     (let n = (of_char c :: nat) in
      if 48 \<le> n \<and> n \<le> 57 then Some (n - 48)
      else if 97 \<le> n \<and> n \<le> 122 then Some (n - 87)
      else if 65 \<le> n \<and> n \<le> 90 then Some (n - 55)
      else None)"

definition radixDigit :: "nat \<Rightarrow> char \<Rightarrow> nat option" where
  "radixDigit r c =
     (case digitValue c of
        None \<Rightarrow> None
      | Some d \<Rightarrow> if d < r then Some d else None)"

definition stripSign :: "string \<Rightarrow> int \<times> string" where
  "stripSign s =
     (case s of
        [] \<Rightarrow> (1, [])
      | c # r \<Rightarrow> if c = CHR ''-'' then (- 1, r)
                 else if c = CHR ''+'' then (1, r)
                 else (1, c # r))"

definition stripHexPrefix :: "nat \<Rightarrow> string \<Rightarrow> string" where
  "stripHexPrefix r s =
     (if r = 16 \<and> (take 2 s = ''0x'' \<or> take 2 s = ''0X'') then drop 2 s else s)"

definition digitsValue :: "nat \<Rightarrow> string \<Rightarrow> nat" where
  "digitsValue r ds =
     foldl (\<lambda>a c. a * r + (case radixDigit r c of Some d \<Rightarrow> d | None \<Rightarrow> 0)) 0 ds"

text \<open>
  \<open>Number.parseInt(s, r)\<close> for a radix \<open>r\<close> between 2 and 36: leading white space is
  skipped, then an optional sign, for radix 16 an optional \<open>0x\<close>, then the longest run of
  digits of the radix; no digit at all gives \<open>NaN\<close>.
\<close>

definition parseInt :: "string \<Rightarrow> nat \<Rightarrow> int option" where
  "parseInt s r =
     (let (sign, s2) = stripSign (dropWhile isStrWhiteSpaceChar s);
          ds = takeWhile (\<lambda>c. radixDigit r c \<noteq> None) (stripHexPrefix r s2)
      in if ds = [] then None else Some (sign * int (digitsValue r ds)))"

definition slice :: "string \<Rightarrow> nat \<Rightarrow> nat \<Rightarrow> string" where
  "slice s a b = take (b - a) (drop a s)"

definition hexDigitChar :: "nat \<Rightarrow> char" where
  "hexDigitChar d = ''0123456789abcdef'' ! d"

fun natToString16 :: "nat \<Rightarrow> string" where
  "natToString16 n =
     (if n < 16 then [hexDigitChar n]
      else natToString16 (n div 16) @ [hexDigitChar (n mod 16)])"

declare natToString16.simps [simp del]

definition toString16 :: "int \<Rightarrow> string" where
  "toString16 n = (if n < 0 then CHR ''-'' # natToString16 (nat (- n)) else natToString16 (nat n))"

definition padStart :: "string \<Rightarrow> nat \<Rightarrow> char \<Rightarrow> string" where
  "padStart s n c = replicate (n - length s) c @ s"

definition indexOf :: "string \<Rightarrow> char \<Rightarrow> int" where
  "indexOf s c = (if c \<in> set s then int (length (takeWhile (\<lambda>d. d \<noteq> c) s)) else - 1)"

definition includesChar :: "string \<Rightarrow> char \<Rightarrow> bool" where
  "includesChar s c = (c \<in> set s)"


section \<open>Shading variants of a palette color\<close>

datatype error = InvalidHexColorFormat | TypeError | OutOfRange

definition hexClass :: "char \<Rightarrow> bool" where
  "hexClass c =
     (let n = (of_char c :: nat) in
      (48 \<le> n \<and> n \<le> 57) \<or> (65 \<le> n \<and> n \<le> 70) \<or> (97 \<le> n \<and> n \<le> 102))"

text \<open>The test of the anchored pattern \<open>^#[\dA-Fa-f]{6}$\<close>.\<close>

definition hexColorTest :: "string \<Rightarrow> bool" where
  "hexColorTest color =
     (case color of
        [] \<Rightarrow> False
      | c # rest \<Rightarrow> c = CHR ''#'' \<and> length rest = 6 \<and> list_all hexClass rest)"

definition redOf :: "string \<Rightarrow> int option" where
  "redOf color = parseInt (slice color 1 3) 16"

definition greenOf :: "string \<Rightarrow> int option" where
  "greenOf color = parseInt (slice color 3 5) 16"

definition blueOf :: "string \<Rightarrow> int option" where
  "blueOf color = parseInt (slice color 5 7) 16"

definition shade :: "int option \<Rightarrow> int \<Rightarrow> string" where
  "shade ch i =
     (case ch of
        None \<Rightarrow> ''NaN''
      | Some c \<Rightarrow> padStart (toString16 (max 0 (c - 30 * (i + 1)))) 2 (CHR ''0''))"

definition colorVariants :: "string \<Rightarrow> error + string list" where
  "colorVariants color =
     (if \<not> hexColorTest color then Inl InvalidHexColorFormat
      else
        let r = redOf color; g = greenOf color; b = blueOf color
        in Inr (color # map (\<lambda>i. CHR ''#'' # shade r i @ shade g i @ shade b i) [1, 2]))"

text \<open>The wording of the specification: a \<open>#\<close> followed by exactly six hexadecimal digits.\<close>

definition strictSixDigitHex :: "string \<Rightarrow> bool" where
  "strictSixDigitHex s =
     (length s = 7 \<and> take 1 s = ''#'' \<and>
      list_all (\<lambda>c. c \<in> set ''0123456789abcdefABCDEF'') (drop 1 s))"


section \<open>Coordinate systems\<close>

record BlockPos =
  px :: int
  py :: int
  pz :: int

record RenderBlockPos =
  rx :: int
  rz :: int
  ry :: int

type_synonym CenterPos = "int \<times> int"

definition convertBlockPosToRenderBlockPos :: "int \<Rightarrow> BlockPos \<Rightarrow> RenderBlockPos" where
  "convertBlockPosToRenderBlockPos renderChunkHeight blockPos =
     \<lparr>rx = px blockPos, rz = py blockPos, ry = renderChunkHeight - 1 - pz blockPos\<rparr>"

definition convertRenderBlockPosToBlockPos :: "int \<Rightarrow> RenderBlockPos \<Rightarrow> BlockPos" where
  "convertRenderBlockPosToBlockPos renderChunkHeight renderBlockPos =
     \<lparr>px = rx renderBlockPos,
      py = renderChunkHeight - 1 - rz renderBlockPos,
      pz = ry renderBlockPos\<rparr>"


section \<open>The facing latch\<close>

record keyState =
  lastKey :: "int option"
  isActive :: bool

definition keyState0 :: keyState where
  "keyState0 = \<lparr>lastKey = None, isActive = False\<rparr>"

definition isFacingKey :: "int option \<Rightarrow> bool" where
  "isFacingKey key = (case key of None \<Rightarrow> False | Some k \<Rightarrow> 1 \<le> k \<and> k \<le> 6)"

definition keydown :: "keyState \<Rightarrow> string \<Rightarrow> keyState" where
  "keydown ks eventKey =
     (let key = parseInt eventKey 10
      in if isFacingKey key then ks\<lparr>lastKey := key, isActive := True\<rparr> else ks)"

definition keyup :: "keyState \<Rightarrow> string \<Rightarrow> keyState" where
  "keyup ks eventKey =
     (let key = parseInt eventKey 10
      in if isFacingKey key then ks\<lparr>lastKey := None, isActive := False\<rparr> else ks)"

datatype keyEvent = KeyDown string | KeyUp string

fun keyStep :: "keyState \<Rightarrow> keyEvent \<Rightarrow> keyState" where
  "keyStep ks (KeyDown k) = keydown ks k"
| "keyStep ks (KeyUp k) = keyup ks k"

text \<open>The value of \<open>event.key\<close> for the key of a decimal digit.\<close>

definition digitKey :: "nat \<Rightarrow> string" where
  "digitKey d = [''0123456789'' ! d]"

definition runKeys :: "keyEvent list \<Rightarrow> keyState" where
  "runKeys evs = foldl keyStep keyState0 evs"


section \<open>The world store\<close>

text \<open>
  Modelled from the spec: the classes Dimension, Chunk, Block, EmptyBlock and Generator3D
  are imported by the renderer and are not among the sources. A block is empty or of a
  material and carries the name of its type. A chunk is the dense grid of the blocks of one
  chunk coordinate (the component-wise floor of the position divided by the tile size), here
  a function of the local coordinate; the generator is a function of the absolute position.
\<close>

datatype Block = Block string | EmptyBlock string

fun blockType :: "Block \<Rightarrow> string" where
  "blockType (Block t) = t"
| "blockType (EmptyBlock t) = t"

fun isEmptyBlock :: "Block \<Rightarrow> bool" where
  "isEmptyBlock (Block t) = False"
| "isEmptyBlock (EmptyBlock t) = True"

type_synonym Chunk = "int \<times> int \<times> int \<Rightarrow> Block"

record Dimension =
  dimensionId :: string
  generator :: "BlockPos \<Rightarrow> Block"
  chunks :: "int \<times> int \<Rightarrow> Chunk option"

definition tileSize :: int where
  "tileSize = 8"

definition chunkPosOf :: "BlockPos \<Rightarrow> int \<times> int" where
  "chunkPosOf p = (px p div tileSize, py p div tileSize)"

definition localPosOf :: "BlockPos \<Rightarrow> int \<times> int \<times> int" where
  "localPosOf p = (px p mod tileSize, py p mod tileSize, pz p)"

definition generateChunk :: "(BlockPos \<Rightarrow> Block) \<Rightarrow> int \<times> int \<Rightarrow> Chunk" where
  "generateChunk gen c =
     (\<lambda>(lx, ly, lz). gen \<lparr>px = fst c * tileSize + lx, py = snd c * tileSize + ly, pz = lz\<rparr>)"

text \<open>
  Modelled from the spec: the chunk of a chunk coordinate, materialised by the generator
  on first access and kept from then on.
\<close>

definition getChunkFromChunkPos :: "Dimension \<Rightarrow> int \<times> int \<Rightarrow> Chunk \<times> Dimension" where
  "getChunkFromChunkPos d c =
     (case chunks d c of
        Some ch \<Rightarrow> (ch, d)
      | None \<Rightarrow> (let ch = generateChunk (generator d) c
                 in (ch, d\<lparr>chunks := (chunks d)(c \<mapsto> ch)\<rparr>)))"

text \<open>
  Modelled from the spec: \<open>getBlock\<close> resolves chunk coordinate and local offset,
  materialises an absent chunk before indexing, and fails with \<open>OutOfRange\<close> when z is
  outside \<open>[0, H)\<close>.
\<close>

definition getBlock :: "int \<Rightarrow> Dimension \<Rightarrow> BlockPos \<Rightarrow> error + (Block \<times> Dimension)" where
  "getBlock H d p =
     (if pz p < 0 \<or> H \<le> pz p then Inl OutOfRange
      else let (ch, d') = getChunkFromChunkPos d (chunkPosOf p)
           in Inr (ch (localPosOf p), d'))"

text \<open>
  Modelled from the spec: \<open>setBlock\<close> uses the same resolution and replaces the block in
  the chunk; the write is permanent.
\<close>

definition setBlock :: "int \<Rightarrow> Dimension \<Rightarrow> BlockPos \<Rightarrow> Block \<Rightarrow> error + Dimension" where
  "setBlock H d p b =
     (if pz p < 0 \<or> H \<le> pz p then Inl OutOfRange
      else let (ch, d') = getChunkFromChunkPos d (chunkPosOf p)
           in Inr (d'\<lparr>chunks := (chunks d')(chunkPosOf p \<mapsto> ch(localPosOf p := b))\<rparr>))"

text \<open>A loop whose body reads or extends the state and may raise.\<close>

fun mapE :: "('s \<Rightarrow> 'a \<Rightarrow> error + ('b \<times> 's)) \<Rightarrow> 'a list \<Rightarrow> 's \<Rightarrow> error + ('b list \<times> 's)" where
  "mapE f [] s = Inr ([], s)"
| "mapE f (a # as) s =
     (case f s a of
        Inl e \<Rightarrow> Inl e
      | Inr (b, s') \<Rightarrow>
          (case mapE f as s' of
             Inl e \<Rightarrow> Inl e
           | Inr (bs, s'') \<Rightarrow> Inr (b # bs, s'')))"

fun foldE :: "('a \<Rightarrow> 's \<Rightarrow> error + 's) \<Rightarrow> 'a list \<Rightarrow> 's \<Rightarrow> error + 's" where
  "foldE f [] s = Inr s"
| "foldE f (a # as) s = (case f a s of Inl e \<Rightarrow> Inl e | Inr s' \<Rightarrow> foldE f as s')"

text \<open>
  Modelled from the spec: every block of the inclusive box, indexed from \<open>min\<close>, by
  repeated \<open>getBlock\<close> calls.
\<close>

definition getBlockArray ::
  "int \<Rightarrow> Dimension \<Rightarrow> BlockPos \<Rightarrow> BlockPos \<Rightarrow> error + (Block list list list \<times> Dimension)" where
  "getBlockArray H d mn mx =
     mapE (\<lambda>d1 x.
        mapE (\<lambda>d2 y.
           mapE (\<lambda>d3 z. getBlock H d3 \<lparr>px = x, py = y, pz = z\<rparr>) [pz mn..pz mx] d2)
          [py mn..py mx] d1)
       [px mn..px mx] d"

text \<open>What a read returns, without the store it leaves behind.\<close>

definition readBlock :: "int \<Rightarrow> Dimension \<Rightarrow> BlockPos \<Rightarrow> error + Block" where
  "readBlock H d p = (case getBlock H d p of Inl e \<Rightarrow> Inl e | Inr (b, d') \<Rightarrow> Inr b)"


section \<open>Palette and inventory\<close>

record Item =
  itemType :: string
  itemColor :: string

definition colorMapper0 :: "string \<Rightarrow> string option" where
  "colorMapper0 =
     [''stone'' \<mapsto> ''#808080'', ''sand'' \<mapsto> ''#f0e68c'', ''water'' \<mapsto> ''#0000ff'',
      ''grass'' \<mapsto> ''#00ff00'', ''dirt'' \<mapsto> ''#8b4513'', ''snow'' \<mapsto> ''#ffffff'']"

definition addItem :: "Item list \<Rightarrow> Item \<Rightarrow> Item list" where
  "addItem items it = it # items"

definition inventory0 :: "Item list" where
  "inventory0 =
     foldl addItem []
       [\<lparr>itemType = ''stone'', itemColor = ''#808080''\<rparr>,
        \<lparr>itemType = ''sand'', itemColor = ''#f0e68c''\<rparr>,
        \<lparr>itemType = ''water'', itemColor = ''#0000ff''\<rparr>,
        \<lparr>itemType = ''grass'', itemColor = ''#00ff00''\<rparr>,
        \<lparr>itemType = ''dirt'', itemColor = ''#8b4513''\<rparr>,
        \<lparr>itemType = ''snow'', itemColor = ''#ffffff''\<rparr>]"

definition extractFirstKey :: "string \<Rightarrow> string" where
  "extractFirstKey path =
     (let dotIndex = indexOf path (CHR ''.'')
      in if dotIndex = - 1 then path else slice path 0 (nat dotIndex))"


section \<open>The scene\<close>

record ExtendedSprite =
  texture :: string
  pos :: RenderBlockPos
  containerCenter :: CenterPos
  zIndex :: int

record ExtendedContainer =
  indexPos :: "int \<times> int"
  children :: "ExtendedSprite list"

text \<open>
  The renderer, the module-level palette, selection and key latch, the inventory singleton
  and the dimension, as one state.
\<close>

record render =
  dimension :: Dimension
  rengerGrid :: "ExtendedContainer list list"
  currentXOffset :: int
  currentYOffset :: int
  center :: CenterPos
  textures :: "string set"
  colorMapper :: "string \<Rightarrow> string option"
  selectedBlockType :: string
  keys :: keyState
  inventory :: "Item list"

definition blockSize :: int where
  "blockSize = 30"

definition renderChunkSize :: int where
  "renderChunkSize = 8"

definition chunkSize :: int where
  "chunkSize = 8"

definition ceilHalf :: "int \<Rightarrow> int" where
  "ceilHalf n = - ((- n) div 2)"

definition floorHalf :: "int \<Rightarrow> int" where
  "floorHalf n = n div 2"

text \<open>The remainder operator of the host language: the sign follows the dividend.\<close>

definition jsRem :: "int \<Rightarrow> int \<Rightarrow> int" where
  "jsRem a b = sgn a * (\<bar>a\<bar> mod \<bar>b\<bar>)"

text \<open>Reading an array at an index: \<open>undefined\<close> outside the array.\<close>

definition jsIndex :: "'a list \<Rightarrow> int \<Rightarrow> 'a option" where
  "jsIndex xs i = (if 0 \<le> i \<and> i < int (length xs) then Some (xs ! nat i) else None)"

definition select_inventory :: "render \<Rightarrow> Item \<Rightarrow> render" where
  "select_inventory s it = s\<lparr>selectedBlockType := itemType it\<rparr>"

definition addNewBlockType :: "render \<Rightarrow> (string \<times> string) list \<Rightarrow> render" where
  "addNewBlockType s aiBlockData =
     foldl (\<lambda>s1 (key, blockData).
        let keyMody = extractFirstKey key
        in if \<not> includesChar blockData (CHR ''#'') then s1
           else s1\<lparr>colorMapper := (colorMapper s1)(keyMody \<mapsto> blockData),
                   inventory := addItem (inventory s1) \<lparr>itemType = keyMody, itemColor = blockData\<rparr>\<rparr>)
       s aiBlockData"

text \<open>
  The wording of the claim about palette registration: the entries whose value holds a
  \<open>#\<close>, each under its key cut at the first dot.
\<close>

definition registeredEntries :: "(string \<times> string) list \<Rightarrow> (string \<times> string) list" where
  "registeredEntries aiBlockData =
     map (\<lambda>(k, v). (takeWhile (\<lambda>c. c \<noteq> CHR ''.'') k, v))
       (filter (\<lambda>(k, v). CHR ''#'' \<in> set v) aiBlockData)"

definition getTexture :: "string set \<Rightarrow> string \<Rightarrow> error + string set" where
  "getTexture tex color =
     (if color \<in> tex then Inr tex
      else case colorVariants color of
             Inl e \<Rightarrow> Inl e
           | Inr colors \<Rightarrow> Inr (insert color tex))"

definition newSprite :: "string \<Rightarrow> RenderBlockPos \<Rightarrow> CenterPos \<Rightarrow> ExtendedSprite" where
  "newSprite color p chunkCenter =
     \<lparr>texture = color, pos = p, containerCenter = chunkCenter,
      zIndex = (rx p + rz p) * 100000 - ry p * 10\<rparr>"

definition addChild :: "ExtendedContainer \<Rightarrow> ExtendedSprite \<Rightarrow> ExtendedContainer" where
  "addChild c sp = c\<lparr>children := children c @ [sp]\<rparr>"

text \<open>\<open>renderBlock\<close> on a container under construction.\<close>

definition renderBlock ::
  "string set \<Rightarrow> string \<Rightarrow> RenderBlockPos \<Rightarrow> ExtendedContainer \<Rightarrow> CenterPos
     \<Rightarrow> error + (ExtendedContainer \<times> string set)" where
  "renderBlock tex color p container chunkCenter =
     (case getTexture tex color of
        Inl e \<Rightarrow> Inl e
      | Inr tex' \<Rightarrow> Inr (addChild container (newSprite color p chunkCenter), tex'))"

text \<open>
  A handler that raises keeps the effects it had before: its outcome is the exception, if
  any, and the state it leaves.
\<close>

type_synonym outcome = "error option \<times> render"

definition andThen :: "outcome \<Rightarrow> (render \<Rightarrow> outcome) \<Rightarrow> outcome" where
  "andThen r f = (case r of (Some e, s) \<Rightarrow> (Some e, s) | (None, s) \<Rightarrow> f s)"

text \<open>
  \<open>renderBlock\<close> on the container at a place of the grid whose row exists: the texture is
  fetched first, then the sprite is added, which raises on \<open>undefined\<close>.
\<close>

definition renderBlockAt ::
  "render \<Rightarrow> string \<Rightarrow> RenderBlockPos \<Rightarrow> int \<times> int \<Rightarrow> CenterPos \<Rightarrow> outcome" where
  "renderBlockAt s color p idx chunkCenter =
     (case getTexture (textures s) color of
        Inl e \<Rightarrow> (Some e, s)
      | Inr tex' \<Rightarrow>
          (let s1 = s\<lparr>textures := tex'\<rparr>
           in (case jsIndex (rengerGrid s1) (fst idx) of
                 None \<Rightarrow> (Some TypeError, s1)
               | Some row \<Rightarrow>
                   (case jsIndex row (snd idx) of
                      None \<Rightarrow> (Some TypeError, s1)
                    | Some c \<Rightarrow>
                        (None, s1\<lparr>rengerGrid := (rengerGrid s1)
                           [nat (fst idx) := row[nat (snd idx) :=
                              addChild c (newSprite color p chunkCenter)]]\<rparr>)))))"

text \<open>
  The same with the container read from the grid in the argument list: a missing row raises
  before \<open>renderBlock\<close> is entered.
\<close>

definition renderBlockAdjacent ::
  "render \<Rightarrow> string \<Rightarrow> RenderBlockPos \<Rightarrow> int \<times> int \<Rightarrow> CenterPos \<Rightarrow> outcome" where
  "renderBlockAdjacent s color p idx chunkCenter =
     (case jsIndex (rengerGrid s) (fst idx) of
        None \<Rightarrow> (Some TypeError, s)
      | Some row \<Rightarrow> renderBlockAt s color p idx chunkCenter)"

definition setBlockIn :: "int \<Rightarrow> BlockPos \<Rightarrow> Block \<Rightarrow> render \<Rightarrow> outcome" where
  "setBlockIn H p b s =
     (case setBlock H (dimension s) p b of
        Inl e \<Rightarrow> (Some e, s)
      | Inr d \<Rightarrow> (None, s\<lparr>dimension := d\<rparr>))"

definition selectedColor :: "render \<Rightarrow> string" where
  "selectedColor s =
     (case colorMapper s (selectedBlockType s) of
        None \<Rightarrow> ''#00ff00''
      | Some c \<Rightarrow> if c = [] then ''#00ff00'' else c)"

definition clickedSprite :: "render \<Rightarrow> nat \<Rightarrow> nat \<Rightarrow> nat \<Rightarrow> ExtendedSprite option" where
  "clickedSprite s i j k =
     (case jsIndex (rengerGrid s) (int i) of
        None \<Rightarrow> None
      | Some row \<Rightarrow>
          (case jsIndex row (int j) of
             None \<Rightarrow> None
           | Some c \<Rightarrow> jsIndex (children c) (int k)))"

definition absolutePos :: "int \<Rightarrow> ExtendedSprite \<Rightarrow> BlockPos" where
  "absolutePos H sp =
     \<lparr>px = fst (containerCenter sp) - ceilHalf renderChunkSize + rx (pos sp),
      py = snd (containerCenter sp) - ceilHalf renderChunkSize + rz (pos sp),
      pz = H - ry (pos sp) - 1\<rparr>"

definition removeChild :: "render \<Rightarrow> nat \<Rightarrow> nat \<Rightarrow> nat \<Rightarrow> render" where
  "removeChild s i j k =
     s\<lparr>rengerGrid := (rengerGrid s)
        [i := (rengerGrid s ! i)
          [j := (rengerGrid s ! i ! j)
            \<lparr>children := take k (children (rengerGrid s ! i ! j))
                          @ drop (Suc k) (children (rengerGrid s ! i ! j))\<rparr>]]\<rparr>"


section \<open>Editing by pointer\<close>

record window =
  HEIGHT :: int
  innerWidthChunks :: nat
  innerHeightChunks :: nat

text \<open>
  \<open>HEIGHT\<close> is the constant \<open>Chunk.HEIGHT\<close>; \<open>innerWidthChunks\<close> and \<open>innerHeightChunks\<close>
  are the two rounded-up quotients of the window's inner size by the pixel size of a
  render chunk.
\<close>

definition renderChunkHeight :: "window \<Rightarrow> int" where
  "renderChunkHeight w = HEIGHT w"

definition xMaxChunkLength :: "window \<Rightarrow> nat" where
  "xMaxChunkLength w = innerWidthChunks w + 5"

definition yMaxChunkLength :: "window \<Rightarrow> nat" where
  "yMaxChunkLength w = innerHeightChunks w + 5"

definition offsetX :: "window \<Rightarrow> int" where
  "offsetX w = int (xMaxChunkLength w) div 2"

definition offsetY :: "window \<Rightarrow> int" where
  "offsetY w = int (yMaxChunkLength w) div 2"

text \<open>
  The handler of \<open>pointerdown\<close> that \<open>renderBlock\<close> attaches to a sprite. The sprite is
  child \<open>k\<close> of the container at row \<open>i\<close> and column \<open>j\<close> of the grid, the container the
  handler holds; \<open>containerIndex\<close> is the index that container stores.
\<close>

definition pointerdown :: "window \<Rightarrow> render \<Rightarrow> nat \<Rightarrow> nat \<Rightarrow> nat \<Rightarrow> int \<Rightarrow> outcome" where
  "pointerdown w s i j k button =
     (case clickedSprite s i j k of
        None \<Rightarrow> (None, s)
      | Some sprite \<Rightarrow>
          if button \<noteq> 0 then (None, s)
          else
            (let p = pos sprite;
                 chunkCenter = containerCenter sprite;
                 absPos = absolutePos (renderChunkHeight w) sprite;
                 containerIndex = indexPos (rengerGrid s ! i ! j);
                 own = (int i, int j);
                 color = selectedColor s;
                 block = Block (selectedBlockType s)
             in
               if isActive (keys s) then
                 (if lastKey (keys s) = Some 1 then
                    andThen
                      (if rz p + 1 < chunkSize + 1
                       then renderBlockAt s color (p\<lparr>rz := rz p + 1\<rparr>) own chunkCenter
                       else renderBlockAdjacent s color
                              (p\<lparr>rz := jsRem (rz p + 1) (chunkSize + 1)\<rparr>)
                              (fst containerIndex + 1, snd containerIndex) chunkCenter)
                      (setBlockIn (renderChunkHeight w) (absPos\<lparr>py := py absPos + 1\<rparr>) block)
                  else if lastKey (keys s) = Some 2 then
                    andThen
                      (setBlockIn (renderChunkHeight w) (absPos\<lparr>py := py absPos - 1\<rparr>) block s)
                      (\<lambda>s1.
                         if rz p - 1 \<ge> 0
                         then renderBlockAt s1 color (p\<lparr>rz := rz p - 1\<rparr>) own chunkCenter
                         else renderBlockAdjacent s1 color
                                (p\<lparr>rz := rz p - 1 + chunkSize + 1\<rparr>)
                                (fst containerIndex - 1, snd containerIndex) chunkCenter)
                  else if lastKey (keys s) = Some 3 then
                    andThen
                      (if rx p - 1 \<ge> 0
                       then renderBlockAt s color (p\<lparr>rx := rx p - 1\<rparr>) own chunkCenter
                       else renderBlockAdjacent s color
                              (p\<lparr>rx := rx p - 1 + chunkSize + 1\<rparr>)
                              (fst containerIndex, snd containerIndex - 1) chunkCenter)
                      (setBlockIn (renderChunkHeight w) (absPos\<lparr>px := px absPos - 1\<rparr>) block)
                  else if lastKey (keys s) = Some 4 then
                    andThen
                      (if rx p + 1 < chunkSize + 1
                       then renderBlockAt s color (p\<lparr>rx := rx p + 1\<rparr>) own chunkCenter
                       else renderBlockAdjacent s color
                              (p\<lparr>rx := jsRem (rx p + 1) (chunkSize + 1)\<rparr>)
                              (fst containerIndex, snd containerIndex + 1) chunkCenter)
                      (setBlockIn (renderChunkHeight w) (absPos\<lparr>px := px absPos + 1\<rparr>) block)
                  else if lastKey (keys s) = Some 5 then
                    (case getBlock (renderChunkHeight w) (dimension s)
                            (absPos\<lparr>pz := pz absPos + 1\<rparr>) of
                       Inl e \<Rightarrow> (Some e, s)
                     | Inr (b, d1) \<Rightarrow>
                         if isEmptyBlock b \<and> pz absPos + 1 < renderChunkHeight w
                         then andThen
                                (renderBlockAt (s\<lparr>dimension := d1\<rparr>) color
                                   (p\<lparr>ry := ry p - 1\<rparr>) own chunkCenter)
                                (setBlockIn (renderChunkHeight w)
                                   (absPos\<lparr>pz := pz absPos + 1\<rparr>) block)
                         else (None, s\<lparr>dimension := d1\<rparr>))
                  else if lastKey (keys s) = Some 6 then
                    (case getBlock (renderChunkHeight w) (dimension s)
                            (absPos\<lparr>pz := pz absPos - 1\<rparr>) of
                       Inl e \<Rightarrow> (Some e, s)
                     | Inr (b, d1) \<Rightarrow>
                         if isEmptyBlock b \<and> pz absPos - 1 > 0
                         then andThen
                                (renderBlockAt (s\<lparr>dimension := d1\<rparr>) color
                                   (p\<lparr>ry := ry p + 1\<rparr>) own chunkCenter)
                                (setBlockIn (renderChunkHeight w)
                                   (absPos\<lparr>pz := pz absPos - 1\<rparr>) block)
                         else (None, s\<lparr>dimension := d1\<rparr>))
                  else (None, s))
               else
                 setBlockIn (renderChunkHeight w) absPos (EmptyBlock ''air'')
                   (removeChild s i j k)))"

text \<open>
  The words of the claims about placing: the neighbour of a position in the direction of
  a digit, the box of a tile around its center, and the matrix neighbour of an index.
\<close>

definition neighborPos :: "int \<Rightarrow> BlockPos \<Rightarrow> BlockPos" where
  "neighborPos d q =
     (if d = 1 then q\<lparr>py := py q + 1\<rparr>
      else if d = 2 then q\<lparr>py := py q - 1\<rparr>
      else if d = 3 then q\<lparr>px := px q - 1\<rparr>
      else if d = 4 then q\<lparr>px := px q + 1\<rparr>
      else if d = 5 then q\<lparr>pz := pz q + 1\<rparr>
      else if d = 6 then q\<lparr>pz := pz q - 1\<rparr>
      else q)"

definition insideBox :: "CenterPos \<Rightarrow> BlockPos \<Rightarrow> bool" where
  "insideBox c q =
     (fst c - 4 \<le> px q \<and> px q \<le> fst c + 4 \<and> snd c - 4 \<le> py q \<and> py q \<le> snd c + 4)"

definition adjacentIndex :: "int \<Rightarrow> int \<times> int \<Rightarrow> int \<times> int" where
  "adjacentIndex d idx =
     (if d = 1 then (fst idx + 1, snd idx)
      else if d = 2 then (fst idx - 1, snd idx)
      else if d = 3 then (fst idx, snd idx - 1)
      else if d = 4 then (fst idx, snd idx + 1)
      else idx)"

text \<open>The grid with one more sprite in the container at an index.\<close>

definition gridAdd ::
  "ExtendedContainer list list \<Rightarrow> int \<times> int \<Rightarrow> ExtendedSprite \<Rightarrow> ExtendedContainer list list" where
  "gridAdd g idx sp =
     g[nat (fst idx) := (g ! nat (fst idx))
        [nat (snd idx) := addChild (g ! nat (fst idx) ! nat (snd idx)) sp]]"

text \<open>
  The container a placed node goes to: the one of the clicked sprite when the neighbour
  is inside the box around the center the sprite records, else the matrix neighbour of the
  index that container stores.
\<close>

definition placeTarget :: "render \<Rightarrow> nat \<Rightarrow> nat \<Rightarrow> ExtendedSprite \<Rightarrow> int \<Rightarrow> BlockPos \<Rightarrow> int \<times> int" where
  "placeTarget s i j sp d nb =
     (if insideBox (containerCenter sp) nb then (int i, int j)
      else adjacentIndex d (indexPos (rengerGrid s ! i ! j)))"

definition containerAt :: "render \<Rightarrow> int \<times> int \<Rightarrow> ExtendedContainer option" where
  "containerAt s idx =
     (case jsIndex (rengerGrid s) (fst idx) of
        None \<Rightarrow> None
      | Some row \<Rightarrow> jsIndex row (snd idx))"


section \<open>Streaming the grid\<close>

text \<open>
  The operations of this section return the exception they raise, or the state they leave
  when they complete. The pixel position of a container and the order of the containers
  in the display list are not part of the state.
\<close>

definition getBlockArrayAt ::
  "window \<Rightarrow> Dimension \<Rightarrow> CenterPos \<Rightarrow> error + (Block list list list \<times> Dimension)" where
  "getBlockArrayAt w d c =
     getBlockArray (HEIGHT w) d
       \<lparr>px = fst c - ceilHalf renderChunkSize, py = snd c - ceilHalf renderChunkSize, pz = 0\<rparr>
       \<lparr>px = fst c + floorHalf renderChunkSize, py = snd c + floorHalf renderChunkSize,
        pz = renderChunkHeight w - 1\<rparr>"

text \<open>
  Modelled from the spec: \<open>traverse3DArray\<close> is imported and not among the sources; it
  visits every cell of the array with its three indices, here in index order.
\<close>

definition traverse3DArray :: "Block list list list \<Rightarrow> (Block \<times> BlockPos) list" where
  "traverse3DArray blockArray =
     concat (map (\<lambda>(x, plane).
        concat (map (\<lambda>(y, col).
           map (\<lambda>(z, v). (v, \<lparr>px = int x, py = int y, pz = int z\<rparr>)) (enumerate 0 col))
          (enumerate 0 plane)))
       (enumerate 0 blockArray))"

text \<open>
  The neighbour tests of \<open>renderRChunk\<close> guard every index they read and their results are
  not used, so the model leaves them out: every block that is not empty is drawn.
\<close>

definition renderCell ::
  "window \<Rightarrow> (string \<Rightarrow> string option) \<Rightarrow> CenterPos \<Rightarrow> Block \<times> BlockPos
     \<Rightarrow> ExtendedContainer \<times> string set \<Rightarrow> error + (ExtendedContainer \<times> string set)" where
  "renderCell w cm chunkcenter cell acc =
     (case cell of (v, lp) \<Rightarrow>
        (case acc of (container, tex1) \<Rightarrow>
           if isEmptyBlock v then Inr (container, tex1)
           else
             (let color = (case cm (blockType v) of Some c \<Rightarrow> c | None \<Rightarrow> ''#000000'')
              in renderBlock tex1 color
                   (convertBlockPosToRenderBlockPos (renderChunkHeight w) lp)
                   container chunkcenter)))"

definition renderRChunk ::
  "window \<Rightarrow> string set \<Rightarrow> (string \<Rightarrow> string option) \<Rightarrow> Block list list list \<Rightarrow> CenterPos
     \<Rightarrow> error + (ExtendedContainer \<times> string set)" where
  "renderRChunk w tex cm blockArray chunkcenter =
     foldE (renderCell w cm chunkcenter) (traverse3DArray blockArray)
       (\<lparr>indexPos = (0, 0), children = []\<rparr>, tex)"

text \<open>One tile: the block array around a center, then its container.\<close>

definition buildChunk :: "window \<Rightarrow> render \<Rightarrow> CenterPos \<Rightarrow> error + (ExtendedContainer \<times> render)" where
  "buildChunk w s c =
     (case getBlockArrayAt w (dimension s) c of
        Inl e \<Rightarrow> Inl e
      | Inr (array, d) \<Rightarrow>
          (case renderRChunk w (textures s) (colorMapper s) array c of
             Inl e \<Rightarrow> Inl e
           | Inr (container, tex) \<Rightarrow> Inr (container, s\<lparr>dimension := d, textures := tex\<rparr>)))"

text \<open>The body of the outer loop of \<open>initStage\<close>: row \<open>y\<close> is built and pushed.\<close>

definition initStageRow :: "window \<Rightarrow> CenterPos \<Rightarrow> nat \<Rightarrow> render \<Rightarrow> error + render" where
  "initStageRow w c y s1 =
     (case mapE (buildChunk w)
             (map (\<lambda>x. ((int x + fst c - offsetX w) * chunkSize,
                        (int y + snd c - offsetY w) * chunkSize))
                [0..<xMaxChunkLength w]) s1 of
        Inl e \<Rightarrow> Inl e
      | Inr (row, s2) \<Rightarrow> Inr (s2\<lparr>rengerGrid := rengerGrid s2 @ [row]\<rparr>))"

definition initStage :: "window \<Rightarrow> CenterPos option \<Rightarrow> render \<Rightarrow> error + render" where
  "initStage w centerArg s =
     (let c = (case centerArg of None \<Rightarrow> (0, 0) | Some c \<Rightarrow> c)
      in foldE (initStageRow w c) [0..<yMaxChunkLength w] s)"

definition addTopRow :: "window \<Rightarrow> render \<Rightarrow> error + render" where
  "addTopRow w s =
     (let s1 = s\<lparr>rengerGrid := butlast (rengerGrid s)\<rparr>
      in case jsIndex (rengerGrid s1) 0 of
           None \<Rightarrow> Inl TypeError
         | Some row0 \<Rightarrow>
             (case jsIndex row0 0 of
                None \<Rightarrow> Inl TypeError
              | Some first \<Rightarrow>
                  (let s2 = s1\<lparr>currentYOffset := currentYOffset s1 - 1,
                               center := (fst (center s1), snd (center s1) - 1)\<rparr>
                   in case mapE (buildChunk w)
                             (map (\<lambda>x. ((int x + currentXOffset s2 - offsetX w) * chunkSize,
                                        (currentYOffset s2 - offsetY w) * chunkSize))
                                [0..<xMaxChunkLength w]) s2 of
                        Inl e \<Rightarrow> Inl e
                      | Inr (row, s3) \<Rightarrow> Inr (s3\<lparr>rengerGrid := row # rengerGrid s3\<rparr>))))"

definition addBottomRow :: "window \<Rightarrow> render \<Rightarrow> error + render" where
  "addBottomRow w s =
     (let s1 = s\<lparr>rengerGrid := tl (rengerGrid s)\<rparr>
      in case jsIndex (rengerGrid s1) (int (length (rengerGrid s1)) - 1) of
           None \<Rightarrow> Inl TypeError
         | Some rowL \<Rightarrow>
             (case jsIndex rowL 0 of
                None \<Rightarrow> Inl TypeError
              | Some first \<Rightarrow>
                  (let s2 = s1\<lparr>currentYOffset := currentYOffset s1 + 1\<rparr>
                   in case mapE (buildChunk w)
                             (map (\<lambda>x. ((int x + currentXOffset s2 - offsetX w) * chunkSize,
                                        (currentYOffset s2 - offsetY w + int (yMaxChunkLength w))
                                          * chunkSize))
                                [0..<xMaxChunkLength w]) s2 of
                        Inl e \<Rightarrow> Inl e
                      | Inr (row, s3) \<Rightarrow> Inr (s3\<lparr>rengerGrid := rengerGrid s3 @ [row]\<rparr>))))"

text \<open>The body of the loop of \<open>addRightColumn\<close> for row \<open>y\<close>.\<close>

definition addRightColumnStep :: "window \<Rightarrow> nat \<Rightarrow> render \<Rightarrow> error + render" where
  "addRightColumnStep w y s2 =
     (case jsIndex (rengerGrid s2) (int y) of
        None \<Rightarrow> Inl TypeError
      | Some row \<Rightarrow>
          (case jsIndex row (int (length row) - 1) of
             None \<Rightarrow> Inl TypeError
           | Some lastC \<Rightarrow>
               (let s3 = s2\<lparr>rengerGrid := (rengerGrid s2)[y := tl row]\<rparr>
                in case buildChunk w s3
                          ((int (xMaxChunkLength w) - 1 + currentXOffset s3) * chunkSize,
                           (int y + currentYOffset s3 - offsetY w) * chunkSize) of
                     Inl e \<Rightarrow> Inl e
                   | Inr (container, s4) \<Rightarrow>
                       Inr (s4\<lparr>rengerGrid := (rengerGrid s4)
                              [y := (rengerGrid s4 ! y) @ [container]]\<rparr>))))"

definition addRightColumn :: "window \<Rightarrow> render \<Rightarrow> error + render" where
  "addRightColumn w s =
     foldE (addRightColumnStep w) [0..<yMaxChunkLength w]
       (s\<lparr>currentXOffset := currentXOffset s + 1\<rparr>)"

text \<open>The body of the loop of \<open>addLeftColumn\<close> for row \<open>y\<close>.\<close>

definition addLeftColumnStep :: "window \<Rightarrow> nat \<Rightarrow> render \<Rightarrow> error + render" where
  "addLeftColumnStep w y s2 =
     (case jsIndex (rengerGrid s2) (int y) of
        None \<Rightarrow> Inl TypeError
      | Some row \<Rightarrow>
          (case jsIndex row 0 of
             None \<Rightarrow> Inl TypeError
           | Some firstC \<Rightarrow>
               (let s3 = s2\<lparr>rengerGrid := (rengerGrid s2)[y := butlast row]\<rparr>
                in case buildChunk w s3
                          ((0 + currentXOffset s3 - offsetX w) * chunkSize,
                           (int y + currentYOffset s3 - offsetY w) * chunkSize) of
                     Inl e \<Rightarrow> Inl e
                   | Inr (container, s4) \<Rightarrow>
                       Inr (s4\<lparr>rengerGrid := (rengerGrid s4)
                              [y := container # (rengerGrid s4 ! y)]\<rparr>))))"

definition addLeftColumn :: "window \<Rightarrow> render \<Rightarrow> error + render" where
  "addLeftColumn w s =
     foldE (addLeftColumnStep w) [0..<yMaxChunkLength w]
       (s\<lparr>currentXOffset := currentXOffset s - 1\<rparr>)"

text \<open>The assignment in the inner loop of \<open>reassignIndex\<close>, at row \<open>i\<close> and column \<open>j\<close>.\<close>

definition reassignCell :: "nat \<Rightarrow> nat \<Rightarrow> render \<Rightarrow> error + render" where
  "reassignCell i j s2 =
     (case jsIndex (rengerGrid s2) (int i) of
        None \<Rightarrow> Inl TypeError
      | Some row \<Rightarrow>
          (case jsIndex row (int j) of
             None \<Rightarrow> Inl TypeError
           | Some c \<Rightarrow>
               Inr (s2\<lparr>rengerGrid := (rengerGrid s2)
                      [i := row[j := c\<lparr>indexPos := (int i, int j)\<rparr>]]\<rparr>)))"

definition reassignIndex :: "window \<Rightarrow> render \<Rightarrow> error + render" where
  "reassignIndex w s =
     foldE (\<lambda>i s1. foldE (reassignCell i) [0..<xMaxChunkLength w] s1)
       [0..<yMaxChunkLength w] s"

text \<open>
  \<open>willOutOfScreen\<close> compares pixel positions of the corner containers with the window;
  the comparison is an input of the model (\<open>fires\<close>), the reads of the corners are modelled.
\<close>

definition willOutOfScreen :: "render \<Rightarrow> bool \<Rightarrow> error + bool" where
  "willOutOfScreen s fires =
     (case jsIndex (rengerGrid s) 0 of
        None \<Rightarrow> Inl TypeError
      | Some row0 \<Rightarrow>
          (case jsIndex row0 0 of
             None \<Rightarrow> Inl TypeError
           | Some leftContainer \<Rightarrow>
               (case jsIndex (rengerGrid s) (int (length (rengerGrid s)) - 1) of
                  None \<Rightarrow> Inl TypeError
                | Some rowL \<Rightarrow>
                    (case jsIndex rowL (int (length row0) - 1) of
                       None \<Rightarrow> Inl TypeError
                     | Some rightContainer \<Rightarrow>
                         (case jsIndex rowL 0 of
                            None \<Rightarrow> Inl TypeError
                          | Some bottomContainer \<Rightarrow> Inr fires)))))"

record frame =
  topFires :: bool
  bottomFires :: bool
  rightFires :: bool
  leftFires :: bool

definition bindE :: "error + 'a \<Rightarrow> ('a \<Rightarrow> error + 'b) \<Rightarrow> error + 'b" where
  "bindE m f = (case m of Inl e \<Rightarrow> Inl e | Inr a \<Rightarrow> f a)"

definition shiftIf ::
  "window \<Rightarrow> bool \<Rightarrow> (window \<Rightarrow> render \<Rightarrow> error + render) \<Rightarrow> render \<Rightarrow> error + render" where
  "shiftIf w fires shift s =
     bindE (willOutOfScreen s fires) (\<lambda>b. if b then shift w s else Inr s)"

text \<open>The callback of the ticker, after the stage has been moved.\<close>

definition tick :: "window \<Rightarrow> frame \<Rightarrow> render \<Rightarrow> error + render" where
  "tick w fr s =
     bindE (bindE (bindE (bindE
       (shiftIf w (topFires fr) addTopRow s)
       (shiftIf w (bottomFires fr) addBottomRow))
       (shiftIf w (rightFires fr) addRightColumn))
       (shiftIf w (leftFires fr) addLeftColumn))
       (reassignIndex w)"

datatype shift = AddTopRow | AddBottomRow | AddLeftColumn | AddRightColumn

fun applyShift :: "window \<Rightarrow> shift \<Rightarrow> render \<Rightarrow> error + render" where
  "applyShift w AddTopRow s = addTopRow w s"
| "applyShift w AddBottomRow s = addBottomRow w s"
| "applyShift w AddLeftColumn s = addLeftColumn w s"
| "applyShift w AddRightColumn s = addRightColumn w s"

definition runShifts :: "window \<Rightarrow> shift list \<Rightarrow> render \<Rightarrow> error + render" where
  "runShifts w ops s = foldE (applyShift w) ops s"

text \<open>
  The state of the module when it is loaded: the dimension is created and its chunk at the
  origin is fetched once, the grid is empty.
\<close>

definition render0 :: "(BlockPos \<Rightarrow> Block) \<Rightarrow> render" where
  "render0 gen =
     \<lparr>dimension =
        snd (getChunkFromChunkPos
               \<lparr>dimensionId = ''overworld'', generator = gen, chunks = (\<lambda>c. None)\<rparr> (0, 0)),
      rengerGrid = [],
      currentXOffset = 0,
      currentYOffset = 0,
      center = (0, 0),
      textures = {},
      colorMapper = colorMapper0,
      selectedBlockType = ''grass'',
      keys = keyState0,
      inventory = inventory0\<rparr>"

text \<open>Properties of states used in the statements below.\<close>

definition gridShape :: "window \<Rightarrow> ExtendedContainer list list \<Rightarrow> bool" where
  "gridShape w g = (map length g = replicate (yMaxChunkLength w) (xMaxChunkLength w))"

definition paletteValid :: "(string \<Rightarrow> string option) \<Rightarrow> bool" where
  "paletteValid cm = (\<forall>k c. cm k = Some c \<longrightarrow> hexColorTest c)"

definition indexTable :: "window \<Rightarrow> (int \<times> int) list list" where
  "indexTable w =
     map (\<lambda>i. map (\<lambda>j. (int i, int j)) [0..<xMaxChunkLength w]) [0..<yMaxChunkLength w]"


section \<open>A small scene for the examples\<close>

text \<open>
  A window of the smallest grid, a world that is stone at height 0 and air above, a world
  of stone only, and a scene of one container that holds one sprite at height 0, with a
  given key latched.
\<close>

definition exampleWindow :: window where
  "exampleWindow = \<lparr>HEIGHT = 16, innerWidthChunks = 0, innerHeightChunks = 0\<rparr>"

definition exampleGround :: "BlockPos \<Rightarrow> Block" where
  "exampleGround p = (if pz p \<le> 0 then Block ''stone'' else EmptyBlock ''air'')"

definition exampleSolid :: "BlockPos \<Rightarrow> Block" where
  "exampleSolid p = Block ''stone''"

definition exampleSprite :: ExtendedSprite where
  "exampleSprite = newSprite ''#808080'' \<lparr>rx = 0, rz = 0, ry = 15\<rparr> (0, 0)"

definition exampleScene :: "(BlockPos \<Rightarrow> Block) \<Rightarrow> int option \<Rightarrow> render" where
  "exampleScene gen key =
     (render0 gen)
       \<lparr>rengerGrid := [[\<lparr>indexPos = (0, 0), children = [exampleSprite]\<rparr>]],
        keys := \<lparr>lastKey = key, isActive = (key \<noteq> None)\<rparr>\<rparr>"


section \<open>Notions used in the statements about the store and the grid\<close>

text \<open>
  The chunk a dimension holds or would generate at a chunk coordinate, and the block it
  answers for a position.
\<close>

definition viewChunk :: "Dimension \<Rightarrow> int \<times> int \<Rightarrow> Chunk" where
  "viewChunk d c = (case chunks d c of Some ch \<Rightarrow> ch | None \<Rightarrow> generateChunk (generator d) c)"

definition blockAt :: "Dimension \<Rightarrow> BlockPos \<Rightarrow> Block" where
  "blockAt d p = viewChunk d (chunkPosOf p) (localPosOf p)"

text \<open>
  Two stores with the same content: the same generator, the same chunk at every
  coordinate whether held or still to be generated, and every chunk held by the first
  held unchanged by the second.
\<close>

definition sameWorld :: "Dimension \<Rightarrow> Dimension \<Rightarrow> bool" where
  "sameWorld d d' =
     (generator d' = generator d \<and> dimensionId d' = dimensionId d \<and>
      viewChunk d' = viewChunk d \<and> map_le (chunks d) (chunks d'))"

definition streamed :: "render \<Rightarrow> render \<Rightarrow> bool" where
  "streamed s s' =
     (sameWorld (dimension s) (dimension s') \<and> colorMapper s' = colorMapper s \<and>
      selectedBlockType s' = selectedBlockType s \<and> keys s' = keys s \<and>
      inventory s' = inventory s)"

text \<open>
  The outcome of a placing click in direction \<open>d\<close>: the handler returns, one sprite of the
  selected color has been added to the target container, at the neighbour position when
  that is inside the box, and the store holds a block of the selected type at the
  neighbour position and is unchanged elsewhere.
\<close>

definition placedResult ::
  "window \<Rightarrow> render \<Rightarrow> nat \<Rightarrow> nat \<Rightarrow> ExtendedSprite \<Rightarrow> int \<Rightarrow> error option \<times> render \<Rightarrow> bool" where
  "placedResult w s i j sp d r =
     (\<exists>s' p'.
        r = (None, s') \<and>
        rengerGrid s' =
          gridAdd (rengerGrid s)
            (placeTarget s i j sp d (neighborPos d (absolutePos (renderChunkHeight w) sp)))
            (newSprite (selectedColor s) p' (containerCenter sp)) \<and>
        (if insideBox (containerCenter sp) (neighborPos d (absolutePos (renderChunkHeight w) sp))
         then absolutePos (renderChunkHeight w) (newSprite (selectedColor s) p' (containerCenter sp))
              = neighborPos d (absolutePos (renderChunkHeight w) sp)
         else True) \<and>
        blockAt (dimension s') (neighborPos d (absolutePos (renderChunkHeight w) sp))
          = Block (selectedBlockType s) \<and>
        (\<forall>q. q = neighborPos d (absolutePos (renderChunkHeight w) sp) \<or>
             blockAt (dimension s') q = blockAt (dimension s) q))"

text \<open>A state that differs from another in the held chunks and the cached textures only.\<close>

definition rebuilt :: "render \<Rightarrow> render \<Rightarrow> bool" where
  "rebuilt s s' =
     (rengerGrid s' = rengerGrid s \<and> currentXOffset s' = currentXOffset s \<and>
      currentYOffset s' = currentYOffset s \<and> center s' = center s \<and> streamed s s')"

text \<open>
  The containers of the rows before row \<open>i\<close>, and of row \<open>i\<close> before column \<open>j\<close>, store
  their own place (rows of \<open>n\<close> columns).
\<close>

definition indexedUpTo :: "nat \<Rightarrow> nat \<Rightarrow> nat \<Rightarrow> ExtendedContainer list list \<Rightarrow> bool" where
  "indexedUpTo n i j g =
     ((\<forall>i'<i. \<forall>j'<n. indexPos (g ! i' ! j') = (int i', int j')) \<and>
      (\<forall>j'<j. indexPos (g ! i ! j') = (int i, int j')))"

text \<open>
  A result that is either a value with a property, or the error of an invalid palette
  color where the palette has one.
\<close>

definition outcomeOK :: "bool \<Rightarrow> ('a \<Rightarrow> bool) \<Rightarrow> error + 'a \<Rightarrow> bool" where
  "outcomeOK pv Q r = (case r of Inl e \<Rightarrow> e = InvalidHexColorFormat \<and> \<not> pv | Inr x \<Rightarrow> Q x)"


section \<open>Coordinate conversion: properties\<close>

lemma convert_there_and_back:
  "convertBlockPosToRenderBlockPos H (convertRenderBlockPosToBlockPos H r) =
     \<lparr>rx = rx r, rz = H - 1 - rz r, ry = H - 1 - ry r\<rparr>"
  by (simp add: convertBlockPosToRenderBlockPos_def convertRenderBlockPosToBlockPos_def)

text \<open>
  C1. The two conversions are claimed to be mutually inverse for heights in \<open>[0, H)\<close>.
  On the code, with \<open>H = 16\<close>, the render position \<open>(0, 0, 0)\<close> goes to the block
  position \<open>(0, 15, 0)\<close> and comes back as render \<open>x = 0, y = 15, z = 15\<close>: the
  conversion from render to data repeats the formula of the other direction instead of
  inverting it, as the pointer handler does in \<open>absolutePos\<close>.
\<close>

theorem convert_roundtrip_diverges:
  "convertBlockPosToRenderBlockPos 16
     (convertRenderBlockPosToBlockPos 16 \<lparr>rx = 0, rz = 0, ry = 0\<rparr>)
   = \<lparr>rx = 0, rz = 15, ry = 15\<rparr>"
  by (simp add: convertBlockPosToRenderBlockPos_def convertRenderBlockPosToBlockPos_def)


section \<open>The facing latch: properties\<close>

lemma digitKey_parse:
  assumes "1 \<le> d" "d \<le> 6"
  shows "parseInt (digitKey d) 10 = Some (int d)"
proof -
  from assms have "d \<in> {1, 2, 3, 4, 5, 6}" by auto
  then show ?thesis
    by (auto simp add: digitKey_def parseInt_def stripSign_def stripHexPrefix_def
        isStrWhiteSpaceChar_def radixDigit_def digitValue_def digitsValue_def)
qed

lemma runKeys_snoc: "runKeys (evs @ [e]) = keyStep (runKeys evs) e"
  by (simp add: runKeys_def)

text \<open>
  C2, as stated, fails: after the keys 1 and 2 have gone down the latch holds 2, and the
  release of key 1 clears it.
\<close>

theorem latch_cleared_by_other_key:
  "lastKey (runKeys [KeyDown ''1'', KeyDown ''2'']) = Some 2 \<and>
   lastKey (runKeys [KeyDown ''1'', KeyDown ''2'', KeyUp ''1'']) = None"
  by (simp add: runKeys_def keydown_def keyup_def parseInt_def stripSign_def
      stripHexPrefix_def isStrWhiteSpaceChar_def radixDigit_def digitValue_def
      digitsValue_def isFacingKey_def keyState0_def)

text \<open>
  C2, amended. After any sequence of key events, the keydown of a digit \<open>d\<close> from 1 to 6
  latches \<open>d\<close> (the last key pressed wins), the keyup of any digit from 1 to 6 clears the
  latch, whichever digit it holds, and an event of a key that does not read as a number
  from 1 to 6 leaves the latch as it is.
\<close>

theorem facing_latch_transitions:
  "(1 \<le> d \<and> d \<le> 6 \<longrightarrow>
      runKeys (evs @ [KeyDown (digitKey d)]) = \<lparr>lastKey = Some (int d), isActive = True\<rparr> \<and>
      runKeys (evs @ [KeyUp (digitKey d)]) = \<lparr>lastKey = None, isActive = False\<rparr>) \<and>
   (\<not> isFacingKey (parseInt k 10) \<longrightarrow>
      runKeys (evs @ [KeyDown k]) = runKeys evs \<and> runKeys (evs @ [KeyUp k]) = runKeys evs)"
  by (simp add: runKeys_snoc keydown_def keyup_def digitKey_parse isFacingKey_def)

theorem facing_latch_transitions_witness:
  "runKeys ([KeyDown ''5''] @ [KeyDown (digitKey 3)]) = \<lparr>lastKey = Some 3, isActive = True\<rparr> \<and>
   runKeys ([KeyDown ''5''] @ [KeyUp (digitKey 3)]) = \<lparr>lastKey = None, isActive = False\<rparr> \<and>
   runKeys ([KeyDown ''5''] @ [KeyDown ''w'']) = runKeys [KeyDown ''5''] \<and>
   runKeys ([KeyDown ''5''] @ [KeyUp ''w'']) = runKeys [KeyDown ''5'']"
proof -
  have k: "\<not> isFacingKey (parseInt ''w'' 10)"
    by (simp add: parseInt_def stripSign_def stripHexPrefix_def isStrWhiteSpaceChar_def
        radixDigit_def digitValue_def isFacingKey_def)
  have d: "1 \<le> (3::nat) \<and> (3::nat) \<le> 6" by simp
  show ?thesis
    using facing_latch_transitions [of 3 "[KeyDown ''5'']" "''w''"] k d by simp
qed


section \<open>Shading variants: properties\<close>

lemma hexClass_set: "hexClass c = (c \<in> set ''0123456789abcdefABCDEF'')"
proof
  assume h: "hexClass c"
  define n where "n = (of_char c :: nat)"
  have c: "c = char_of n" by (simp add: n_def)
  from h have r: "(48 \<le> n \<and> n \<le> 57) \<or> (65 \<le> n \<and> n \<le> 70) \<or> (97 \<le> n \<and> n \<le> 102)"
    unfolding hexClass_def Let_def n_def[symmetric] .
  have "n \<in> {48, 49, 50, 51, 52, 53, 54, 55, 56, 57} \<or> n \<in> {65, 66, 67, 68, 69, 70}
      \<or> n \<in> {97, 98, 99, 100, 101, 102}"
    using r by simp arith
  then have "c \<in> char_of ` ({48, 49, 50, 51, 52, 53, 54, 55, 56, 57, 65, 66, 67, 68, 69, 70,
      97, 98, 99, 100, 101, 102} :: nat set)"
    unfolding c by blast
  also have "char_of ` ({48, 49, 50, 51, 52, 53, 54, 55, 56, 57, 65, 66, 67, 68, 69, 70,
      97, 98, 99, 100, 101, 102} :: nat set) = set ''0123456789ABCDEFabcdef''"
    by code_simp
  finally show "c \<in> set ''0123456789abcdefABCDEF''"
    by auto
next
  assume "c \<in> set ''0123456789abcdefABCDEF''"
  then show "hexClass c" by (auto simp add: hexClass_def)
qed

lemma hexColorTest_strict: "hexColorTest s = strictSixDigitHex s"
proof (cases s)
  case Nil
  then show ?thesis by (simp add: hexColorTest_def strictSixDigitHex_def)
next
  case (Cons c rest)
  have eq: "hexClass = (\<lambda>c. c \<in> set ''0123456789abcdefABCDEF'')"
    by (rule ext) (rule hexClass_set)
  show ?thesis unfolding Cons hexColorTest_def strictSixDigitHex_def eq
    by auto
qed

lemma hexClass_facts:
  assumes "hexClass c"
  shows "\<exists>d<16. radixDigit 16 c = Some d" "\<not> isStrWhiteSpaceChar c"
    "c \<noteq> CHR ''-''" "c \<noteq> CHR ''+''" "c \<noteq> CHR ''x''" "c \<noteq> CHR ''X''"
  using assms unfolding hexClass_set
  by (auto simp add: radixDigit_def digitValue_def isStrWhiteSpaceChar_def)

lemma parseInt_two:
  assumes a: "hexClass a" "radixDigit 16 a = Some da"
    and b: "hexClass b" "radixDigit 16 b = Some db"
  shows "parseInt [a, b] 16 = Some (int (da * 16 + db))"
  using hexClass_facts(2-6)[OF a(1)] hexClass_facts(2-6)[OF b(1)] a(2) b(2)
  by (simp add: parseInt_def stripSign_def stripHexPrefix_def digitsValue_def)

lemma below_sixteen: "(d::nat) < 16 \<Longrightarrow> d \<in> {0, 1, 2, 3, 4, 5, 6, 7, 8, 9, 10, 11, 12, 13, 14, 15}"
  by simp arith

lemma hexDigitChar_facts:
  assumes "d < 16"
  shows "hexClass (hexDigitChar d)" "radixDigit 16 (hexDigitChar d) = Some d"
  using below_sixteen[OF assms]
  by (auto simp add: hexDigitChar_def hexClass_def radixDigit_def digitValue_def)

lemma parseInt_hexDigitChars:
  assumes "a < 16" "b < 16"
  shows "parseInt [hexDigitChar a, hexDigitChar b] 16 = Some (int (a * 16 + b))"
  by (rule parseInt_two) (simp_all add: hexDigitChar_facts assms)

lemma padStart_two_digits:
  assumes "n < 256"
  shows "padStart (natToString16 n) 2 (CHR ''0'')
         = [hexDigitChar (n div 16), hexDigitChar (n mod 16)]"
proof (cases "n < 16")
  case True
  then show ?thesis
    by (simp add: natToString16.simps[of n] padStart_def hexDigitChar_def)
next
  case False
  with assms have "n div 16 < 16" by simp
  then show ?thesis using False
    by (simp add: natToString16.simps[of n] natToString16.simps[of "n div 16"] padStart_def)
qed

lemma shade_two_digits:
  assumes "0 \<le> c" "c < 256" "0 \<le> i"
  shows "\<exists>a b. a < 16 \<and> b < 16 \<and> shade (Some c) i = [hexDigitChar a, hexDigitChar b]
          \<and> int (a * 16 + b) = max 0 (c - 30 * (i + 1))"
proof -
  define m where "m = nat (max 0 (c - 30 * (i + 1)))"
  have m: "m < 256" "int m = max 0 (c - 30 * (i + 1))" using assms by (auto simp add: m_def)
  have "shade (Some c) i = [hexDigitChar (m div 16), hexDigitChar (m mod 16)]"
    using padStart_two_digits[OF m(1)] by (simp add: shade_def toString16_def m_def)
  moreover have "m div 16 < 16" "m mod 16 < 16" using m(1) by simp_all
  moreover have "int ((m div 16) * 16 + m mod 16) = max 0 (c - 30 * (i + 1))"
    using m(2) by simp
  ultimately show ?thesis by blast
qed

lemma two_hex_value:
  assumes "hexClass a" "hexClass b"
  shows "\<exists>c. parseInt [a, b] 16 = Some c \<and> 0 \<le> c \<and> c < 256"
proof -
  obtain da where da: "da < 16" "radixDigit 16 a = Some da"
    using hexClass_facts(1)[OF assms(1)] by blast
  obtain db where db: "db < 16" "radixDigit 16 b = Some db"
    using hexClass_facts(1)[OF assms(2)] by blast
  have "parseInt [a, b] 16 = Some (int (da * 16 + db))"
    by (rule parseInt_two) (simp_all add: assms da db)
  moreover have "da * 16 + db < 256" using da(1) db(1) by simp
  ultimately show ?thesis by auto
qed

lemma six_elements:
  assumes "length (xs :: 'a list) = 6"
  obtains a b c d e f where "xs = [a, b, c, d, e, f]"
  using assms by (auto simp add: length_Suc_conv eval_nat_numeral)



text \<open>
  C8. \<open>colorVariants\<close> raises its error exactly when the input is not a \<open>#\<close> followed by
  exactly six hexadecimal digits, and returns a list of colors exactly when it is.
\<close>

theorem colorVariants_raises_iff:
  "(colorVariants s = Inl InvalidHexColorFormat) = (\<not> strictSixDigitHex s) \<and>
   (\<exists>vs. colorVariants s = Inr vs) = strictSixDigitHex s"
  by (simp add: colorVariants_def hexColorTest_strict[symmetric] Let_def)


section \<open>Palette registration: properties\<close>

lemma extractFirstKey_takeWhile: "extractFirstKey k = takeWhile (\<lambda>c. c \<noteq> CHR ''.'') k"
proof (cases "CHR ''.'' \<in> set k")
  case True
  then show ?thesis
    by (simp add: extractFirstKey_def indexOf_def slice_def takeWhile_eq_take[symmetric])
next
  case False
  have "\<forall>x\<in>set k. x \<noteq> CHR ''.''" using False by auto
  then have tw: "takeWhile (\<lambda>c. c \<noteq> CHR ''.'') k = k"
    by (rule takeWhile_eq_all_conv[THEN iffD2])
  show ?thesis using False by (simp add: extractFirstKey_def indexOf_def tw)
qed

lemma addNewBlockType_Cons:
  "addNewBlockType s ((k, v) # es) =
     addNewBlockType
       (if CHR ''#'' \<in> set v
        then s\<lparr>colorMapper := (colorMapper s)(takeWhile (\<lambda>c. c \<noteq> CHR ''.'') k \<mapsto> v),
               inventory := \<lparr>itemType = takeWhile (\<lambda>c. c \<noteq> CHR ''.'') k, itemColor = v\<rparr>
                              # inventory s\<rparr>
        else s) es"
  by (simp add: addNewBlockType_def includesChar_def addItem_def extractFirstKey_takeWhile
      Let_def)

text \<open>
  C10. \<open>addNewBlockType\<close> handles the entries one by one and in order: an entry whose
  value holds no \<open>#\<close> changes nothing; every other entry \<open>(k, v)\<close> sets the palette
  color of \<open>k\<close> cut at its first dot (all of \<open>k\<close> without a dot) to \<open>v\<close> and puts the
  item of that type and color in front of the inventory. No other test is made on \<open>v\<close>
  and nothing else of the state changes.
\<close>

theorem addNewBlockType_registers:
  "addNewBlockType s es =
     s\<lparr>colorMapper := foldl (\<lambda>m (k, v). m(k \<mapsto> v)) (colorMapper s) (registeredEntries es),
       inventory := rev (map (\<lambda>(k, v). \<lparr>itemType = k, itemColor = v\<rparr>) (registeredEntries es))
                    @ inventory s\<rparr>"
proof (induction es arbitrary: s)
  case Nil
  then show ?case by (simp add: addNewBlockType_def registeredEntries_def)
next
  case (Cons e es)
  obtain k v where e: "e = (k, v)" by (cases e)
  show ?case
  proof (cases "CHR ''#'' \<in> set v")
    case True
    then have r: "registeredEntries ((k, v) # es)
        = (takeWhile (\<lambda>c. c \<noteq> CHR ''.'') k, v) # registeredEntries es"
      by (simp add: registeredEntries_def)
    show ?thesis
      by (simp only: e addNewBlockType_Cons Cons.IH r True if_True) simp
  next
    case False
    then have r: "registeredEntries ((k, v) # es) = registeredEntries es"
      by (simp add: registeredEntries_def)
    show ?thesis
      by (simp only: e addNewBlockType_Cons Cons.IH r False if_False)
  qed
qed


section \<open>The world store: properties\<close>

lemma outcomeOK_Inr [simp]: "outcomeOK pv Q (Inr x) = Q x"
  by (simp add: outcomeOK_def)

lemma outcomeOK_Inl [simp]: "outcomeOK pv Q (Inl e) = (e = InvalidHexColorFormat \<and> \<not> pv)"
  by (simp add: outcomeOK_def)

lemma outcomeOK_mono:
  assumes "outcomeOK pv Q r" "\<And>x. Q x \<Longrightarrow> Q' x"
  shows "outcomeOK pv Q' r"
  using assms by (cases r) auto

lemma outcomeOK_weaken:
  assumes "outcomeOK True Q r"
  shows "outcomeOK pv Q r"
  using assms by (cases r) auto

lemma outcomeOK_bindE:
  assumes "outcomeOK pv Q m" "\<And>x. Q x \<Longrightarrow> outcomeOK pv Q' (f x)"
  shows "outcomeOK pv Q' (bindE m f)"
  using assms by (cases m) (auto simp add: bindE_def)

lemma sameWorld_refl [simp]: "sameWorld d d"
  by (simp add: sameWorld_def)

lemma sameWorld_trans: "sameWorld d1 d2 \<Longrightarrow> sameWorld d2 d3 \<Longrightarrow> sameWorld d1 d3"
  by (auto simp add: sameWorld_def intro: map_le_trans)

lemma getChunkFromChunkPos_view:
  "\<exists>d'. getChunkFromChunkPos d c = (viewChunk d c, d') \<and> sameWorld d d'"
proof (cases "chunks d c")
  case None
  have "viewChunk (d\<lparr>chunks := (chunks d)(c \<mapsto> generateChunk (generator d) c)\<rparr>) = viewChunk d"
    by (rule ext) (simp add: viewChunk_def None split: option.splits)
  moreover have "map_le (chunks d) ((chunks d)(c \<mapsto> generateChunk (generator d) c))"
    using None by (auto simp add: map_le_def)
  ultimately show ?thesis
    by (simp add: getChunkFromChunkPos_def None viewChunk_def sameWorld_def Let_def)
next
  case (Some ch)
  then show ?thesis by (simp add: getChunkFromChunkPos_def viewChunk_def)
qed

lemma getBlock_in_range:
  assumes "0 \<le> pz p" "pz p < H"
  shows "\<exists>d'. getBlock H d p = Inr (blockAt d p, d') \<and> sameWorld d d'"
proof -
  obtain d' where "getChunkFromChunkPos d (chunkPosOf p) = (viewChunk d (chunkPosOf p), d')"
    "sameWorld d d'" using getChunkFromChunkPos_view by blast
  then show ?thesis using assms by (simp add: getBlock_def blockAt_def)
qed

lemma getBlock_out_of_range:
  assumes "pz p < 0 \<or> H \<le> pz p"
  shows "getBlock H d p = Inl OutOfRange"
  using assms by (auto simp add: getBlock_def)

lemma readBlock_eq:
  "readBlock H d p = (if pz p < 0 \<or> H \<le> pz p then Inl OutOfRange else Inr (blockAt d p))"
proof (cases "pz p < 0 \<or> H \<le> pz p")
  case True
  then show ?thesis by (simp add: readBlock_def getBlock_out_of_range)
next
  case False
  then obtain d' where "getBlock H d p = Inr (blockAt d p, d')"
    using getBlock_in_range[of p H d] by auto
  then show ?thesis using False by (simp add: readBlock_def)
qed

lemma sameWorld_blockAt: "sameWorld d d' \<Longrightarrow> blockAt d' p = blockAt d p"
  by (simp add: sameWorld_def blockAt_def)

lemma sameWorld_readBlock: "sameWorld d d' \<Longrightarrow> readBlock H d' p = readBlock H d p"
  by (simp add: readBlock_eq sameWorld_blockAt)

lemma div_mod_unique:
  assumes "(a::int) div n = b div n" "a mod n = b mod n"
  shows "a = b"
proof -
  have "a = a div n * n + a mod n" by simp
  also have "\<dots> = b div n * n + b mod n" by (simp only: assms)
  also have "\<dots> = b" by simp
  finally show ?thesis .
qed

lemma pos_unique:
  assumes "chunkPosOf p = chunkPosOf q" "localPosOf p = localPosOf q"
  shows "p = (q :: BlockPos)"
proof -
  have "px p = px q"
    by (rule div_mod_unique[of _ tileSize]) (use assms in \<open>simp_all add: chunkPosOf_def localPosOf_def\<close>)
  moreover have "py p = py q"
    by (rule div_mod_unique[of _ tileSize]) (use assms in \<open>simp_all add: chunkPosOf_def localPosOf_def\<close>)
  moreover have "pz p = pz q" using assms by (simp add: localPosOf_def)
  ultimately show ?thesis by simp
qed

lemma setBlock_in_range:
  assumes "0 \<le> pz p" "pz p < H"
  shows "\<exists>d'. setBlock H d p b = Inr d' \<and> blockAt d' p = b \<and>
          (\<forall>q. q \<noteq> p \<longrightarrow> blockAt d' q = blockAt d q) \<and> generator d' = generator d"
proof -
  obtain d1 where g: "getChunkFromChunkPos d (chunkPosOf p) = (viewChunk d (chunkPosOf p), d1)"
    and sw: "sameWorld d d1" using getChunkFromChunkPos_view by blast
  define d' where "d' = d1\<lparr>chunks := (chunks d1)(chunkPosOf p \<mapsto> (viewChunk d (chunkPosOf p))(localPosOf p := b))\<rparr>"
  have 1: "setBlock H d p b = Inr d'" using assms g by (simp add: setBlock_def d'_def)
  have 2: "blockAt d' p = b" by (simp add: blockAt_def viewChunk_def d'_def)
  have 3: "blockAt d' q = blockAt d q" if "q \<noteq> p" for q
  proof (cases "chunkPosOf q = chunkPosOf p")
    case True
    with that have "localPosOf q \<noteq> localPosOf p" using pos_unique by blast
    then have "blockAt d' q = viewChunk d (chunkPosOf p) (localPosOf q)"
      using True by (simp add: blockAt_def viewChunk_def d'_def)
    then show ?thesis using True by (simp add: blockAt_def)
  next
    case False
    then have "blockAt d' q = blockAt d1 q"
      by (simp add: blockAt_def viewChunk_def d'_def split: option.splits)
    then show ?thesis using sw by (simp add: sameWorld_blockAt)
  qed
  have 4: "generator d' = generator d" using sw by (simp add: d'_def sameWorld_def)
  show ?thesis using 1 2 3 4 by blast
qed

lemma setBlock_out_of_range:
  assumes "pz p < 0 \<or> H \<le> pz p"
  shows "setBlock H d p b = Inl OutOfRange"
  using assms by (auto simp add: setBlock_def)

lemma mapE_sameWorld:
  assumes "\<And>d a. a \<in> set as \<Longrightarrow> \<exists>b d'. f d a = Inr (b, d') \<and> sameWorld d d'"
  shows "\<exists>bs d'. mapE f as d = Inr (bs, d') \<and> sameWorld d d'"
  using assms
proof (induction as arbitrary: d)
  case Nil
  then show ?case by simp
next
  case (Cons a as)
  obtain b d1 where 1: "f d a = Inr (b, d1)" "sameWorld d d1" using Cons.prems[of a d] by auto
  obtain bs d2 where 2: "mapE f as d1 = Inr (bs, d2)" "sameWorld d1 d2"
    using Cons.IH[of d1] Cons.prems by auto
  show ?case using 1 2 by (auto intro: sameWorld_trans)
qed

lemma getBlockArray_ok:
  assumes "0 \<le> pz mn" "pz mx < H"
  shows "\<exists>arr d'. getBlockArray H d mn mx = Inr (arr, d') \<and> sameWorld d d'"
  unfolding getBlockArray_def
proof (intro mapE_sameWorld)
  fix d3 z
  assume "z \<in> set [pz mn..pz mx]"
  then have "0 \<le> z" "z < H" using assms by auto
  then show "\<exists>b d'. getBlock H d3 \<lparr>px = x, py = y, pz = z\<rparr> = Inr (b, d') \<and> sameWorld d3 d'" for x y
    using getBlock_in_range[of "\<lparr>px = x, py = y, pz = z\<rparr>" H d3] by auto
qed

lemma getBlockArrayAt_ok:
  "\<exists>arr d'. getBlockArrayAt w d c = Inr (arr, d') \<and> sameWorld d d'"
  unfolding getBlockArrayAt_def
  by (rule getBlockArray_ok) (simp_all add: renderChunkHeight_def)


section \<open>Building tiles: properties\<close>

lemma streamed_refl [simp]: "streamed s s"
  by (simp add: streamed_def)

lemma streamed_trans: "streamed s1 s2 \<Longrightarrow> streamed s2 s3 \<Longrightarrow> streamed s1 s3"
  by (auto simp add: streamed_def intro: sameWorld_trans)

lemma rebuilt_refl [simp]: "rebuilt s s"
  by (simp add: rebuilt_def)

lemma rebuilt_trans: "rebuilt s1 s2 \<Longrightarrow> rebuilt s2 s3 \<Longrightarrow> rebuilt s1 s3"
  by (auto simp add: rebuilt_def intro: streamed_trans)

lemma foldE_append: "foldE f (xs @ ys) s = bindE (foldE f xs s) (foldE f ys)"
  by (induction xs arbitrary: s) (auto simp add: bindE_def split: sum.splits)

lemma foldE_outcome:
  assumes "\<And>a s. a \<in> set as \<Longrightarrow> I s \<Longrightarrow> outcomeOK pv I (f a s)" "I s"
  shows "outcomeOK pv I (foldE f as s)"
  using assms
proof (induction as arbitrary: s)
  case Nil
  then show ?case by simp
next
  case (Cons a as)
  have "outcomeOK pv I (f a s)" using Cons.prems by simp
  then show ?case using Cons by (cases "f a s") auto
qed

lemma foldE_upt_outcome:
  assumes "\<And>k s. k < n \<Longrightarrow> I k s \<Longrightarrow> outcomeOK pv (I (Suc k)) (f k s)" "I 0 s"
  shows "outcomeOK pv (I n) (foldE f [0..<n] s)"
  using assms
proof (induction n)
  case 0
  then show ?case by simp
next
  case (Suc n)
  have "outcomeOK pv (I n) (foldE f [0..<n] s)" using Suc by simp
  then have "outcomeOK pv (I (Suc n)) (bindE (foldE f [0..<n] s) (foldE f [n]))"
  proof (rule outcomeOK_bindE)
    fix x assume "I n x"
    then have "outcomeOK pv (I (Suc n)) (f n x)" using Suc.prems(1)[of n x] by simp
    then show "outcomeOK pv (I (Suc n)) (foldE f [n] x)" by (cases "f n x") auto
  qed
  then show ?case by (simp add: foldE_append)
qed

lemma hexColorTest_black: "hexColorTest ''#000000''"
  by (simp add: hexColorTest_def hexClass_def)

lemma getTexture_outcome: "outcomeOK (hexColorTest color) (\<lambda>tex'. True) (getTexture tex color)"
  by (simp add: getTexture_def colorVariants_def Let_def)

lemma renderBlock_outcome:
  "outcomeOK (hexColorTest color) (\<lambda>r. True) (renderBlock tex color p container cc)"
  using getTexture_outcome[of color tex]
  by (cases "getTexture tex color") (simp_all add: renderBlock_def)

lemma paletteColor_valid:
  assumes "paletteValid cm"
  shows "hexColorTest (case cm ty of Some c \<Rightarrow> c | None \<Rightarrow> ''#000000'')"
  using assms by (auto simp add: paletteValid_def hexColorTest_black split: option.splits)

lemma renderCell_outcome:
  "outcomeOK (paletteValid cm) (\<lambda>r. True) (renderCell w cm c cell acc)"
proof -
  obtain v lp where a: "cell = (v, lp)" by (cases cell)
  obtain container tex1 where s: "acc = (container, tex1)" by (cases acc)
  define color where "color = (case cm (blockType v) of Some c \<Rightarrow> c | None \<Rightarrow> ''#000000'')"
  have "outcomeOK (hexColorTest color) (\<lambda>r. True)
     (renderBlock tex1 color (convertBlockPosToRenderBlockPos (renderChunkHeight w) lp) container c)"
    by (rule renderBlock_outcome)
  then have "outcomeOK (paletteValid cm) (\<lambda>r. True)
     (renderBlock tex1 color (convertBlockPosToRenderBlockPos (renderChunkHeight w) lp) container c)"
    using paletteColor_valid[of cm "blockType v"]
    by (cases "renderBlock tex1 color (convertBlockPosToRenderBlockPos (renderChunkHeight w) lp) container c")
      (auto simp add: color_def)
  then show ?thesis
    by (simp add: renderCell_def a s color_def Let_def)
qed

lemma renderRChunk_outcome:
  "outcomeOK (paletteValid cm) (\<lambda>r. True) (renderRChunk w tex cm arr c)"
  unfolding renderRChunk_def
  by (rule foldE_outcome) (simp_all add: renderCell_outcome)

lemma buildChunk_outcome:
  "outcomeOK (paletteValid (colorMapper s)) (\<lambda>(c, s'). rebuilt s s') (buildChunk w s ctr)"
proof -
  obtain arr d where g: "getBlockArrayAt w (dimension s) ctr = Inr (arr, d)"
    and sw: "sameWorld (dimension s) d" using getBlockArrayAt_ok by blast
  have r: "outcomeOK (paletteValid (colorMapper s)) (\<lambda>r. True)
     (renderRChunk w (textures s) (colorMapper s) arr ctr)" by (rule renderRChunk_outcome)
  show ?thesis
    using r sw
    by (cases "renderRChunk w (textures s) (colorMapper s) arr ctr")
      (auto simp add: buildChunk_def g rebuilt_def streamed_def)
qed

lemma rebuilt_palette: "rebuilt s s' \<Longrightarrow> colorMapper s' = colorMapper s"
  by (simp add: rebuilt_def streamed_def)

lemma mapE_buildChunk_outcome:
  "outcomeOK (paletteValid (colorMapper s)) (\<lambda>(row, s'). length row = length cs \<and> rebuilt s s')
     (mapE (buildChunk w) cs s)"
proof (induction cs arbitrary: s)
  case Nil
  then show ?case by simp
next
  case (Cons c cs)
  show ?case
  proof (cases "buildChunk w s c")
    case (Inl e)
    then show ?thesis using buildChunk_outcome[of s w c] by simp
  next
    case (Inr r)
    obtain cont s1 where r: "r = (cont, s1)" by (cases r)
    have rb: "rebuilt s s1" using buildChunk_outcome[of s w c] by (simp add: Inr r)
    have ih: "outcomeOK (paletteValid (colorMapper s)) (\<lambda>(row, s'). length row = length cs \<and> rebuilt s1 s')
       (mapE (buildChunk w) cs s1)" using Cons.IH[of s1] by (simp add: rebuilt_palette[OF rb])
    show ?thesis
      using ih rb
      by (cases "mapE (buildChunk w) cs s1") (auto simp add: Inr r intro: rebuilt_trans)
  qed
qed

lemma gridShape_iff:
  "gridShape w g = (length g = yMaxChunkLength w \<and> (\<forall>r\<in>set g. length r = xMaxChunkLength w))"
proof
  assume h: "gridShape w g"
  then have "length (map length g) = yMaxChunkLength w" by (simp add: gridShape_def)
  moreover have "length r = xMaxChunkLength w" if "r \<in> set g" for r
  proof -
    have e: "map length g = replicate (yMaxChunkLength w) (xMaxChunkLength w)"
      using h by (simp add: gridShape_def)
    have "length r \<in> set (map length g)" using that by simp
    then have "length r \<in> set (replicate (yMaxChunkLength w) (xMaxChunkLength w))"
      by (simp only: e)
    then show ?thesis by simp
  qed
  ultimately show "length g = yMaxChunkLength w \<and> (\<forall>r\<in>set g. length r = xMaxChunkLength w)" by simp
next
  assume "length g = yMaxChunkLength w \<and> (\<forall>r\<in>set g. length r = xMaxChunkLength w)"
  then show "gridShape w g"
    unfolding gridShape_def by (intro replicate_eqI) auto
qed


section \<open>Shifting the grid: properties\<close>

lemma jsIndex_nat: "jsIndex xs (int i) = (if i < length xs then Some (xs ! i) else None)"
  by (simp add: jsIndex_def)

lemma jsIndex_0: "jsIndex xs 0 = (if xs = [] then None else Some (xs ! 0))"
  by (simp add: jsIndex_def)

lemma jsIndex_last: "jsIndex xs (int (length xs) - 1) = (if xs = [] then None else Some (last xs))"
proof (cases "xs = []")
  case True
  then show ?thesis by (simp add: jsIndex_def)
next
  case False
  then have "nat (int (length xs) - 1) = length xs - 1" by simp
  then show ?thesis using False by (simp add: jsIndex_def last_conv_nth)
qed

lemma xMax_pos: "0 < xMaxChunkLength w" "5 \<le> xMaxChunkLength w"
  by (simp_all add: xMaxChunkLength_def)

lemma yMax_pos: "0 < yMaxChunkLength w" "5 \<le> yMaxChunkLength w"
  by (simp_all add: yMaxChunkLength_def)

lemma streamed_palette: "streamed s s' \<Longrightarrow> colorMapper s' = colorMapper s"
  by (simp add: streamed_def)

lemma rebuilt_streamed: "rebuilt s s' \<Longrightarrow> streamed s s'"
  by (simp add: rebuilt_def)

lemma rebuilt_grid: "rebuilt s s' \<Longrightarrow> rengerGrid s' = rengerGrid s"
  by (simp add: rebuilt_def)

lemma addTopRow_outcome:
  assumes "gridShape w (rengerGrid s)"
  shows "outcomeOK (paletteValid (colorMapper s))
           (\<lambda>s'. gridShape w (rengerGrid s') \<and> streamed s s') (addTopRow w s)"
proof -
  define g where "g = rengerGrid s"
  have len: "length g = yMaxChunkLength w" and rows: "\<forall>r\<in>set g. length r = xMaxChunkLength w"
    using assms by (simp_all add: gridShape_iff g_def)
  have ne: "butlast g \<noteq> []" using len yMax_pos(2)[of w] by (cases g) (auto simp add: butlast.simps split: if_splits)
  have row0: "butlast g ! 0 \<in> set g"
    using ne by (metis in_set_butlastD length_greater_0_conv nth_mem)
  then have ne0: "butlast g ! 0 \<noteq> []" using rows xMax_pos(1)[of w] by fastforce
  define s2 where "s2 = s\<lparr>rengerGrid := butlast g, currentYOffset := currentYOffset s - 1,
      center := (fst (center s), snd (center s) - 1)\<rparr>"
  define cs where "cs = map (\<lambda>x. ((int x + currentXOffset s2 - offsetX w) * chunkSize,
        (currentYOffset s2 - offsetY w) * chunkSize)) [0..<xMaxChunkLength w]"
  have eq: "addTopRow w s = (case mapE (buildChunk w) cs s2 of Inl e \<Rightarrow> Inl e
      | Inr (row, s3) \<Rightarrow> Inr (s3\<lparr>rengerGrid := row # rengerGrid s3\<rparr>))"
    using ne ne0 by (simp add: addTopRow_def Let_def jsIndex_0 g_def[symmetric] s2_def cs_def)
  have st: "streamed s s2" by (simp add: s2_def streamed_def)
  have m: "outcomeOK (paletteValid (colorMapper s)) (\<lambda>(row, s'). length row = length cs \<and> rebuilt s2 s')
     (mapE (buildChunk w) cs s2)"
    using mapE_buildChunk_outcome[of s2 cs w] by (simp add: streamed_palette[OF st])
  show ?thesis
  proof (cases "mapE (buildChunk w) cs s2")
    case (Inl e)
    then show ?thesis using m by (simp add: eq)
  next
    case (Inr r)
    obtain row s3 where r: "r = (row, s3)" by (cases r)
    have lc: "length cs = xMaxChunkLength w" by (simp add: cs_def)
    have l: "length row = xMaxChunkLength w" and rb: "rebuilt s2 s3"
      using m by (simp_all add: Inr r lc)
    have g3: "rengerGrid s3 = butlast g" using rebuilt_grid[OF rb] by (simp add: s2_def)
    have "gridShape w (row # butlast g)"
      using l len rows yMax_pos(1)[of w] by (auto simp add: gridShape_iff dest: in_set_butlastD)
    moreover have "streamed s (s3\<lparr>rengerGrid := row # rengerGrid s3\<rparr>)"
      using streamed_trans[OF st rebuilt_streamed[OF rb]] by (simp add: streamed_def)
    ultimately show ?thesis by (simp add: eq Inr r g3)
  qed
qed

lemma addBottomRow_outcome:
  assumes "gridShape w (rengerGrid s)"
  shows "outcomeOK (paletteValid (colorMapper s))
           (\<lambda>s'. gridShape w (rengerGrid s') \<and> streamed s s') (addBottomRow w s)"
proof -
  define g where "g = rengerGrid s"
  have len: "length g = yMaxChunkLength w" and rows: "\<forall>r\<in>set g. length r = xMaxChunkLength w"
    using assms by (simp_all add: gridShape_iff g_def)
  have ne: "tl g \<noteq> []" using len yMax_pos(2)[of w] by (cases g) auto
  have "last (tl g) \<in> set g"
    using ne by (metis last_in_set list.set_sel(2) tl_Nil)
  then have ne0: "last (tl g) \<noteq> []" using rows xMax_pos(1)[of w] by fastforce
  define s2 where "s2 = s\<lparr>rengerGrid := tl g, currentYOffset := currentYOffset s + 1\<rparr>"
  define cs where "cs = map (\<lambda>x. ((int x + currentXOffset s2 - offsetX w) * chunkSize,
        (currentYOffset s2 - offsetY w + int (yMaxChunkLength w)) * chunkSize)) [0..<xMaxChunkLength w]"
  have eq: "addBottomRow w s = (case mapE (buildChunk w) cs s2 of Inl e \<Rightarrow> Inl e
      | Inr (row, s3) \<Rightarrow> Inr (s3\<lparr>rengerGrid := rengerGrid s3 @ [row]\<rparr>))"
    using ne ne0 jsIndex_last[of "tl g"]
    by (simp add: addBottomRow_def Let_def jsIndex_0 g_def[symmetric] s2_def cs_def)
  have st: "streamed s s2" by (simp add: s2_def streamed_def)
  have m: "outcomeOK (paletteValid (colorMapper s)) (\<lambda>(row, s'). length row = length cs \<and> rebuilt s2 s')
     (mapE (buildChunk w) cs s2)"
    using mapE_buildChunk_outcome[of s2 cs w] by (simp add: streamed_palette[OF st])
  show ?thesis
  proof (cases "mapE (buildChunk w) cs s2")
    case (Inl e)
    then show ?thesis using m by (simp add: eq)
  next
    case (Inr r)
    obtain row s3 where r: "r = (row, s3)" by (cases r)
    have lc: "length cs = xMaxChunkLength w" by (simp add: cs_def)
    have l: "length row = xMaxChunkLength w" and rb: "rebuilt s2 s3"
      using m by (simp_all add: Inr r lc)
    have g3: "rengerGrid s3 = tl g" using rebuilt_grid[OF rb] by (simp add: s2_def)
    have "gridShape w (tl g @ [row])"
      using l len rows yMax_pos(1)[of w] by (auto simp add: gridShape_iff dest: list.set_sel(2)[rotated])
    moreover have "streamed s (s3\<lparr>rengerGrid := rengerGrid s3 @ [row]\<rparr>)"
      using streamed_trans[OF st rebuilt_streamed[OF rb]] by (simp add: streamed_def)
    ultimately show ?thesis by (simp add: eq Inr r g3)
  qed
qed

lemma gridShape_update:
  assumes "gridShape w g" "length r = xMaxChunkLength w"
  shows "gridShape w (g[k := r])"
  using assms set_update_subset_insert[of g k r] by (auto simp add: gridShape_iff)

lemma gridShape_row:
  assumes "gridShape w g" "k < yMaxChunkLength w"
  shows "k < length g" "length (g ! k) = xMaxChunkLength w"
  using assms by (auto simp add: gridShape_iff)

lemma addRightColumnStep_outcome:
  assumes k: "k < yMaxChunkLength w" and sh: "gridShape w (rengerGrid s2)"
  shows "outcomeOK (paletteValid (colorMapper s2))
           (\<lambda>s'. gridShape w (rengerGrid s') \<and> streamed s2 s') (addRightColumnStep w k s2)"
proof -
  define g where "g = rengerGrid s2"
  define row where "row = g ! k"
  have kl: "k < length g" and rl: "length row = xMaxChunkLength w"
    using gridShape_row[OF sh k] by (simp_all add: g_def row_def)
  have rne: "row \<noteq> []" using rl xMax_pos(1)[of w] by auto
  define s3 where "s3 = s2\<lparr>rengerGrid := g[k := tl row]\<rparr>"
  define ctr where "ctr = ((int (xMaxChunkLength w) - 1 + currentXOffset s3) * chunkSize,
                             (int k + currentYOffset s3 - offsetY w) * chunkSize)"
  have st3: "streamed s2 s3" by (simp add: s3_def streamed_def)
  have b: "outcomeOK (paletteValid (colorMapper s2)) (\<lambda>(c, s'). rebuilt s3 s') (buildChunk w s3 ctr)"
    using buildChunk_outcome[of s3 w ctr] by (simp add: streamed_palette[OF st3])
  have eq: "addRightColumnStep w k s2
      = (case buildChunk w s3 ctr of Inl e \<Rightarrow> Inl e
          | Inr (container, s4) \<Rightarrow>
              Inr (s4\<lparr>rengerGrid := (rengerGrid s4)[k := (rengerGrid s4 ! k) @ [container]]\<rparr>))"
    using kl rne jsIndex_last[of row]
    by (simp add: addRightColumnStep_def jsIndex_nat g_def[symmetric] row_def[symmetric] Let_def s3_def ctr_def)
  show ?thesis
  proof (cases "buildChunk w s3 ctr")
    case (Inl e)
    then show ?thesis using b by (simp add: eq)
  next
    case (Inr r)
    obtain c s4 where r: "r = (c, s4)" by (cases r)
    have rb: "rebuilt s3 s4" using b by (simp add: Inr r)
    have g4: "rengerGrid s4 = g[k := tl row]" using rebuilt_grid[OF rb] by (simp add: s3_def)
    have "length (tl row @ [c]) = xMaxChunkLength w" using rl rne xMax_pos(1)[of w] by simp
    then have "gridShape w (g[k := tl row @ [c]])"
      using sh gridShape_update by (simp add: g_def)
    moreover have "streamed s2 (s4\<lparr>rengerGrid := g[k := tl row @ [c]]\<rparr>)"
      using streamed_trans[OF st3 rebuilt_streamed[OF rb]] by (simp add: streamed_def)
    ultimately show ?thesis using kl by (simp add: eq Inr r g4)
  qed
qed

lemma addLeftColumnStep_outcome:
  assumes k: "k < yMaxChunkLength w" and sh: "gridShape w (rengerGrid s2)"
  shows "outcomeOK (paletteValid (colorMapper s2))
           (\<lambda>s'. gridShape w (rengerGrid s') \<and> streamed s2 s') (addLeftColumnStep w k s2)"
proof -
  define g where "g = rengerGrid s2"
  define row where "row = g ! k"
  have kl: "k < length g" and rl: "length row = xMaxChunkLength w"
    using gridShape_row[OF sh k] by (simp_all add: g_def row_def)
  have rne: "row \<noteq> []" using rl xMax_pos(1)[of w] by auto
  define s3 where "s3 = s2\<lparr>rengerGrid := g[k := butlast row]\<rparr>"
  define ctr where "ctr = ((0 + currentXOffset s3 - offsetX w) * chunkSize,
                             (int k + currentYOffset s3 - offsetY w) * chunkSize)"
  have st3: "streamed s2 s3" by (simp add: s3_def streamed_def)
  have b: "outcomeOK (paletteValid (colorMapper s2)) (\<lambda>(c, s'). rebuilt s3 s') (buildChunk w s3 ctr)"
    using buildChunk_outcome[of s3 w ctr] by (simp add: streamed_palette[OF st3])
  have eq: "addLeftColumnStep w k s2
      = (case buildChunk w s3 ctr of Inl e \<Rightarrow> Inl e
          | Inr (container, s4) \<Rightarrow>
              Inr (s4\<lparr>rengerGrid := (rengerGrid s4)[k := container # (rengerGrid s4 ! k)]\<rparr>))"
    using kl rne
    by (simp add: addLeftColumnStep_def jsIndex_nat jsIndex_0 g_def[symmetric] row_def[symmetric] Let_def s3_def ctr_def)
  show ?thesis
  proof (cases "buildChunk w s3 ctr")
    case (Inl e)
    then show ?thesis using b by (simp add: eq)
  next
    case (Inr r)
    obtain c s4 where r: "r = (c, s4)" by (cases r)
    have rb: "rebuilt s3 s4" using b by (simp add: Inr r)
    have g4: "rengerGrid s4 = g[k := butlast row]" using rebuilt_grid[OF rb] by (simp add: s3_def)
    have "length (c # butlast row) = xMaxChunkLength w" using rl rne xMax_pos(1)[of w] by simp
    then have "gridShape w (g[k := c # butlast row])"
      using sh gridShape_update by (simp add: g_def)
    moreover have "streamed s2 (s4\<lparr>rengerGrid := g[k := c # butlast row]\<rparr>)"
      using streamed_trans[OF st3 rebuilt_streamed[OF rb]] by (simp add: streamed_def)
    ultimately show ?thesis using kl by (simp add: eq Inr r g4)
  qed
qed

lemma column_loop_outcome:
  assumes step: "\<And>k s2. k < n \<Longrightarrow> gridShape w (rengerGrid s2) \<Longrightarrow>
      outcomeOK (paletteValid (colorMapper s2))
           (\<lambda>s'. gridShape w (rengerGrid s') \<and> streamed s2 s') (f k s2)"
    and sh: "gridShape w (rengerGrid s1)" and st: "streamed s s1"
  shows "outcomeOK (paletteValid (colorMapper s))
           (\<lambda>s'. gridShape w (rengerGrid s') \<and> streamed s s') (foldE f [0..<n] s1)"
proof (rule foldE_upt_outcome[where I = "\<lambda>k s'. gridShape w (rengerGrid s') \<and> streamed s s'"])
  show "gridShape w (rengerGrid s1) \<and> streamed s s1" using sh st by simp
next
  fix k s2
  assume k: "k < n" and inv: "gridShape w (rengerGrid s2) \<and> streamed s s2"
  have cm: "colorMapper s2 = colorMapper s" using inv by (simp add: streamed_def)
  have "outcomeOK (paletteValid (colorMapper s))
           (\<lambda>s'. gridShape w (rengerGrid s') \<and> streamed s2 s') (f k s2)"
    using step[OF k, of s2] inv by (simp add: cm)
  then show "outcomeOK (paletteValid (colorMapper s))
           (\<lambda>s'. gridShape w (rengerGrid s') \<and> streamed s s') (f k s2)"
    by (rule outcomeOK_mono) (use inv in \<open>auto intro: streamed_trans\<close>)
qed

lemma addRightColumn_outcome:
  assumes "gridShape w (rengerGrid s)"
  shows "outcomeOK (paletteValid (colorMapper s))
           (\<lambda>s'. gridShape w (rengerGrid s') \<and> streamed s s') (addRightColumn w s)"
  unfolding addRightColumn_def
proof (rule column_loop_outcome)
  show "outcomeOK (paletteValid (colorMapper s2))
           (\<lambda>s'. gridShape w (rengerGrid s') \<and> streamed s2 s') (addRightColumnStep w k s2)"
    if "k < yMaxChunkLength w" "gridShape w (rengerGrid s2)" for k s2
    using that by (rule addRightColumnStep_outcome)
  show "gridShape w (rengerGrid (s\<lparr>currentXOffset := currentXOffset s + 1\<rparr>))"
    using assms by simp
  show "streamed s (s\<lparr>currentXOffset := currentXOffset s + 1\<rparr>)"
    by (simp add: streamed_def)
qed

lemma addLeftColumn_outcome:
  assumes "gridShape w (rengerGrid s)"
  shows "outcomeOK (paletteValid (colorMapper s))
           (\<lambda>s'. gridShape w (rengerGrid s') \<and> streamed s s') (addLeftColumn w s)"
  unfolding addLeftColumn_def
proof (rule column_loop_outcome)
  show "outcomeOK (paletteValid (colorMapper s2))
           (\<lambda>s'. gridShape w (rengerGrid s') \<and> streamed s2 s') (addLeftColumnStep w k s2)"
    if "k < yMaxChunkLength w" "gridShape w (rengerGrid s2)" for k s2
    using that by (rule addLeftColumnStep_outcome)
  show "gridShape w (rengerGrid (s\<lparr>currentXOffset := currentXOffset s - 1\<rparr>))"
    using assms by simp
  show "streamed s (s\<lparr>currentXOffset := currentXOffset s - 1\<rparr>)"
    by (simp add: streamed_def)
qed

lemma applyShift_outcome:
  assumes "gridShape w (rengerGrid s)"
  shows "outcomeOK (paletteValid (colorMapper s))
           (\<lambda>s'. gridShape w (rengerGrid s') \<and> streamed s s') (applyShift w op s)"
  using assms
  by (cases op) (simp_all add: addTopRow_outcome addBottomRow_outcome addLeftColumn_outcome addRightColumn_outcome)

lemma runShifts_outcome:
  assumes "gridShape w (rengerGrid s)"
  shows "outcomeOK (paletteValid (colorMapper s))
           (\<lambda>s'. gridShape w (rengerGrid s') \<and> streamed s s') (runShifts w ops s)"
  unfolding runShifts_def
proof (rule foldE_outcome[where I = "\<lambda>s'. gridShape w (rengerGrid s') \<and> streamed s s'"])
  show "gridShape w (rengerGrid s) \<and> streamed s s" using assms by simp
next
  fix a s2
  assume inv: "gridShape w (rengerGrid s2) \<and> streamed s s2"
  have cm: "colorMapper s2 = colorMapper s" using inv by (simp add: streamed_def)
  have "outcomeOK (paletteValid (colorMapper s))
           (\<lambda>s'. gridShape w (rengerGrid s') \<and> streamed s2 s') (applyShift w a s2)"
    using applyShift_outcome[of w s2 a] inv by (simp add: cm)
  then show "outcomeOK (paletteValid (colorMapper s))
           (\<lambda>s'. gridShape w (rengerGrid s') \<and> streamed s s') (applyShift w a s2)"
    by (rule outcomeOK_mono) (use inv in \<open>auto intro: streamed_trans\<close>)
qed

lemma initStageRow_outcome:
  assumes "length (rengerGrid s1) = k" "\<forall>r\<in>set (rengerGrid s1). length r = xMaxChunkLength w"
  shows "outcomeOK (paletteValid (colorMapper s1))
     (\<lambda>s'. length (rengerGrid s') = Suc k \<and> (\<forall>r\<in>set (rengerGrid s'). length r = xMaxChunkLength w)
         \<and> streamed s1 s')
     (initStageRow w c y s1)"
proof -
  define cs where "cs = map (\<lambda>x. ((int x + fst c - offsetX w) * chunkSize,
                        (int y + snd c - offsetY w) * chunkSize)) [0..<xMaxChunkLength w]"
  have lc: "length cs = xMaxChunkLength w" by (simp add: cs_def)
  have m: "outcomeOK (paletteValid (colorMapper s1)) (\<lambda>(row, s'). length row = length cs \<and> rebuilt s1 s')
     (mapE (buildChunk w) cs s1)" by (rule mapE_buildChunk_outcome)
  show ?thesis
  proof (cases "mapE (buildChunk w) cs s1")
    case (Inl e)
    then show ?thesis using m by (simp add: initStageRow_def cs_def[symmetric])
  next
    case (Inr r)
    obtain row s2 where r: "r = (row, s2)" by (cases r)
    have l: "length row = xMaxChunkLength w" and rb: "rebuilt s1 s2"
      using m by (simp_all add: Inr r lc)
    have "streamed s1 (s2\<lparr>rengerGrid := rengerGrid s2 @ [row]\<rparr>)"
      using rebuilt_streamed[OF rb] by (simp add: streamed_def)
    then show ?thesis
      using assms l rebuilt_grid[OF rb]
      by (auto simp add: initStageRow_def cs_def[symmetric] Inr r)
  qed
qed

lemma initStage_outcome:
  assumes "rengerGrid s = []"
  shows "outcomeOK (paletteValid (colorMapper s))
           (\<lambda>s'. gridShape w (rengerGrid s') \<and> streamed s s') (initStage w centerArg s)"
proof -
  define c where "c = (case centerArg of None \<Rightarrow> (0, 0) | Some c \<Rightarrow> c)"
  have "outcomeOK (paletteValid (colorMapper s))
     (\<lambda>s'. length (rengerGrid s') = yMaxChunkLength w \<and>
         (\<forall>r\<in>set (rengerGrid s'). length r = xMaxChunkLength w) \<and> streamed s s')
     (foldE (initStageRow w c) [0..<yMaxChunkLength w] s)"
  proof (rule foldE_upt_outcome[where I = "\<lambda>k s'. length (rengerGrid s') = k \<and>
         (\<forall>r\<in>set (rengerGrid s'). length r = xMaxChunkLength w) \<and> streamed s s'"])
    show "length (rengerGrid s) = 0 \<and> (\<forall>r\<in>set (rengerGrid s). length r = xMaxChunkLength w) \<and> streamed s s"
      using assms by simp
  next
    fix k s1
    assume inv: "length (rengerGrid s1) = k \<and>
         (\<forall>r\<in>set (rengerGrid s1). length r = xMaxChunkLength w) \<and> streamed s s1"
    have cm: "colorMapper s1 = colorMapper s" using inv by (simp add: streamed_def)
    have "outcomeOK (paletteValid (colorMapper s))
       (\<lambda>s'. length (rengerGrid s') = Suc k \<and> (\<forall>r\<in>set (rengerGrid s'). length r = xMaxChunkLength w)
         \<and> streamed s1 s') (initStageRow w c k s1)"
      using initStageRow_outcome[of s1 k w c k] inv by (simp add: cm)
    then show "outcomeOK (paletteValid (colorMapper s))
       (\<lambda>s'. length (rengerGrid s') = Suc k \<and> (\<forall>r\<in>set (rengerGrid s'). length r = xMaxChunkLength w)
         \<and> streamed s s') (initStageRow w c k s1)"
      by (rule outcomeOK_mono) (use inv in \<open>auto intro: streamed_trans\<close>)
  qed
  then show ?thesis
    by (simp add: initStage_def c_def[symmetric] gridShape_iff)
qed

lemma outcomeOK_True:
  assumes "outcomeOK True Q r"
  shows "\<exists>x. r = Inr x \<and> Q x"
  using assms by (cases r) auto

lemma reassignCell_ok:
  assumes i: "i < yMaxChunkLength w" and j: "j < xMaxChunkLength w" and sh: "gridShape w (rengerGrid s2)"
  shows "reassignCell i j s2 =
     Inr (s2\<lparr>rengerGrid := (rengerGrid s2)
            [i := (rengerGrid s2 ! i)[j := (rengerGrid s2 ! i ! j)\<lparr>indexPos := (int i, int j)\<rparr>]]\<rparr>)"
  using gridShape_row[OF sh i] j by (simp add: reassignCell_def jsIndex_nat)

lemma reassignRow_outcome:
  assumes i: "i < yMaxChunkLength w" and sh: "gridShape w (rengerGrid s1)"
    and ix: "indexedUpTo (xMaxChunkLength w) i 0 (rengerGrid s1)"
  shows "outcomeOK True
     (\<lambda>s'. gridShape w (rengerGrid s') \<and> streamed s1 s' \<and>
        map (map children) (rengerGrid s') = map (map children) (rengerGrid s1) \<and>
        indexedUpTo (xMaxChunkLength w) (Suc i) 0 (rengerGrid s'))
     (foldE (reassignCell i) [0..<xMaxChunkLength w] s1)"
proof -
  have "outcomeOK True
     (\<lambda>s'. gridShape w (rengerGrid s') \<and> streamed s1 s' \<and>
        map (map children) (rengerGrid s') = map (map children) (rengerGrid s1) \<and>
        indexedUpTo (xMaxChunkLength w) i (xMaxChunkLength w) (rengerGrid s'))
     (foldE (reassignCell i) [0..<xMaxChunkLength w] s1)"
  proof (rule foldE_upt_outcome[where I = "\<lambda>j s'. gridShape w (rengerGrid s') \<and> streamed s1 s' \<and>
        map (map children) (rengerGrid s') = map (map children) (rengerGrid s1) \<and>
        indexedUpTo (xMaxChunkLength w) i j (rengerGrid s')"])
    show "gridShape w (rengerGrid s1) \<and> streamed s1 s1 \<and>
        map (map children) (rengerGrid s1) = map (map children) (rengerGrid s1) \<and>
        indexedUpTo (xMaxChunkLength w) i 0 (rengerGrid s1)"
      using sh ix by simp
  next
    fix j s2
    assume j: "j < xMaxChunkLength w"
      and inv: "gridShape w (rengerGrid s2) \<and> streamed s1 s2 \<and>
        map (map children) (rengerGrid s2) = map (map children) (rengerGrid s1) \<and>
        indexedUpTo (xMaxChunkLength w) i j (rengerGrid s2)"
    define g where "g = rengerGrid s2"
    define g' where "g' = g[i := (g ! i)[j := (g ! i ! j)\<lparr>indexPos := (int i, int j)\<rparr>]]"
    have sh2: "gridShape w g" using inv by (simp add: g_def)
    have il: "i < length g" and rl: "length (g ! i) = xMaxChunkLength w"
      using gridShape_row[OF sh2 i] by simp_all
    have eq: "reassignCell i j s2 = Inr (s2\<lparr>rengerGrid := g'\<rparr>)"
      using reassignCell_ok[OF i j] inv by (simp add: g_def g'_def)
    have 1: "gridShape w g'"
      unfolding g'_def by (rule gridShape_update[OF sh2]) (simp add: rl)
    have 2: "streamed s1 (s2\<lparr>rengerGrid := g'\<rparr>)" using inv by (simp add: streamed_def)
    have "(map children (g ! i))[j := children (g ! i ! j)] = map children (g ! i)"
      using j rl by (simp add: list_update_same_conv)
    then have "map (map children) g' = map (map children) g"
      using il by (simp add: g'_def map_update list_update_same_conv)
    then have 3: "map (map children) g' = map (map children) (rengerGrid s1)"
      using inv by (simp add: g_def)
    have 4: "indexedUpTo (xMaxChunkLength w) i (Suc j) g'"
      using inv il j rl
      by (auto simp add: indexedUpTo_def g_def[symmetric] g'_def nth_list_update less_Suc_eq)
    show "outcomeOK True
       (\<lambda>s'. gridShape w (rengerGrid s') \<and> streamed s1 s' \<and>
        map (map children) (rengerGrid s') = map (map children) (rengerGrid s1) \<and>
        indexedUpTo (xMaxChunkLength w) i (Suc j) (rengerGrid s'))
       (reassignCell i j s2)"
      using 1 2 3 4 by (simp add: eq)
  qed
  then show ?thesis
    by (rule outcomeOK_mono) (auto simp add: indexedUpTo_def less_Suc_eq)
qed

lemma indexed_table:
  assumes sh: "gridShape w g" and ix: "indexedUpTo (xMaxChunkLength w) (yMaxChunkLength w) 0 g"
  shows "map (map indexPos) g = indexTable w"
proof (rule nth_equalityI)
  show "length (map (map indexPos) g) = length (indexTable w)"
    using sh by (simp add: gridShape_iff indexTable_def)
next
  fix i assume "i < length (map (map indexPos) g)"
  then have i: "i < yMaxChunkLength w" using sh by (simp add: gridShape_iff)
  have il: "i < length g" and rl: "length (g ! i) = xMaxChunkLength w"
    using gridShape_row[OF sh i] by simp_all
  have "map indexPos (g ! i) = map (\<lambda>j. (int i, int j)) [0..<xMaxChunkLength w]"
  proof (rule nth_equalityI)
    show "length (map indexPos (g ! i)) = length (map (\<lambda>j. (int i, int j)) [0..<xMaxChunkLength w])"
      by (simp add: rl)
  next
    fix j assume "j < length (map indexPos (g ! i))"
    then have j: "j < xMaxChunkLength w" by (simp add: rl)
    then show "map indexPos (g ! i) ! j = map (\<lambda>j. (int i, int j)) [0..<xMaxChunkLength w] ! j"
      using ix i rl by (simp add: indexedUpTo_def)
  qed
  then show "map (map indexPos) g ! i = indexTable w ! i"
    using il i by (simp add: indexTable_def)
qed

lemma reassignIndex_outcome:
  assumes sh: "gridShape w (rengerGrid s)"
  shows "outcomeOK True
     (\<lambda>s'. gridShape w (rengerGrid s') \<and> streamed s s' \<and>
        map (map children) (rengerGrid s') = map (map children) (rengerGrid s) \<and>
        map (map indexPos) (rengerGrid s') = indexTable w)
     (reassignIndex w s)"
proof -
  have "outcomeOK True
     (\<lambda>s'. gridShape w (rengerGrid s') \<and> streamed s s' \<and>
        map (map children) (rengerGrid s') = map (map children) (rengerGrid s) \<and>
        indexedUpTo (xMaxChunkLength w) (yMaxChunkLength w) 0 (rengerGrid s'))
     (reassignIndex w s)"
    unfolding reassignIndex_def
  proof (rule foldE_upt_outcome[where I = "\<lambda>i s'. gridShape w (rengerGrid s') \<and> streamed s s' \<and>
        map (map children) (rengerGrid s') = map (map children) (rengerGrid s) \<and>
        indexedUpTo (xMaxChunkLength w) i 0 (rengerGrid s')"])
    show "gridShape w (rengerGrid s) \<and> streamed s s \<and>
        map (map children) (rengerGrid s) = map (map children) (rengerGrid s) \<and>
        indexedUpTo (xMaxChunkLength w) 0 0 (rengerGrid s)"
      using sh by (simp add: indexedUpTo_def)
  next
    fix i s1
    assume i: "i < yMaxChunkLength w"
      and inv: "gridShape w (rengerGrid s1) \<and> streamed s s1 \<and>
        map (map children) (rengerGrid s1) = map (map children) (rengerGrid s) \<and>
        indexedUpTo (xMaxChunkLength w) i 0 (rengerGrid s1)"
    have "outcomeOK True
     (\<lambda>s'. gridShape w (rengerGrid s') \<and> streamed s1 s' \<and>
        map (map children) (rengerGrid s') = map (map children) (rengerGrid s1) \<and>
        indexedUpTo (xMaxChunkLength w) (Suc i) 0 (rengerGrid s'))
     (foldE (reassignCell i) [0..<xMaxChunkLength w] s1)"
      by (rule reassignRow_outcome[OF i]) (use inv in simp_all)
    then show "outcomeOK True
     (\<lambda>s'. gridShape w (rengerGrid s') \<and> streamed s s' \<and>
        map (map children) (rengerGrid s') = map (map children) (rengerGrid s) \<and>
        indexedUpTo (xMaxChunkLength w) (Suc i) 0 (rengerGrid s'))
     (foldE (reassignCell i) [0..<xMaxChunkLength w] s1)"
      by (rule outcomeOK_mono) (use inv in \<open>auto intro: streamed_trans\<close>)
  qed
  then show ?thesis
    by (rule outcomeOK_mono) (auto simp add: indexed_table)
qed

lemma willOutOfScreen_ok:
  assumes "gridShape w (rengerGrid s)"
  shows "willOutOfScreen s fires = Inr fires"
proof -
  define g where "g = rengerGrid s"
  have len: "length g = yMaxChunkLength w" and rows: "\<forall>r\<in>set g. length r = xMaxChunkLength w"
    using assms by (simp_all add: gridShape_iff g_def)
  have ne: "g \<noteq> []" using len yMax_pos(1)[of w] by auto
  then have "g ! 0 \<in> set g" "last g \<in> set g" by simp_all
  then have l0: "length (g ! 0) = xMaxChunkLength w" and ll: "length (last g) = xMaxChunkLength w"
    using rows by simp_all
  have ne0: "g ! 0 \<noteq> []" "last g \<noteq> []" using l0 ll xMax_pos(1)[of w] by auto
  have "jsIndex (last g) (int (length (g ! 0)) - 1) = Some (last (last g))"
    using jsIndex_last[of "last g"] ne0 by (simp add: l0 ll)
  then show ?thesis
    using ne ne0 jsIndex_last[of g]
    by (simp add: willOutOfScreen_def g_def[symmetric] jsIndex_0)
qed

lemma shiftIf_outcome:
  assumes sh: "gridShape w (rengerGrid s)"
    and shift: "outcomeOK (paletteValid (colorMapper s))
           (\<lambda>s'. gridShape w (rengerGrid s') \<and> streamed s s') (shift w s)"
  shows "outcomeOK (paletteValid (colorMapper s))
           (\<lambda>s'. gridShape w (rengerGrid s') \<and> streamed s s') (shiftIf w fires shift s)"
  using sh shift by (simp add: shiftIf_def willOutOfScreen_ok bindE_def)

lemma outcomeOK_then:
  assumes m: "outcomeOK (paletteValid (colorMapper s))
           (\<lambda>s'. gridShape w (rengerGrid s') \<and> streamed s s') m"
    and f: "\<And>s1. gridShape w (rengerGrid s1) \<Longrightarrow>
          outcomeOK (paletteValid (colorMapper s1)) (\<lambda>s'. Q s' \<and> streamed s1 s') (f s1)"
  shows "outcomeOK (paletteValid (colorMapper s)) (\<lambda>s'. Q s' \<and> streamed s s') (bindE m f)"
  using m
proof (rule outcomeOK_bindE)
  fix s1 assume a: "gridShape w (rengerGrid s1) \<and> streamed s s1"
  then have cm: "colorMapper s1 = colorMapper s" by (simp add: streamed_def)
  have "outcomeOK (paletteValid (colorMapper s)) (\<lambda>s'. Q s' \<and> streamed s1 s') (f s1)"
    using f[of s1] a by (simp add: cm)
  then show "outcomeOK (paletteValid (colorMapper s)) (\<lambda>s'. Q s' \<and> streamed s s') (f s1)"
    by (rule outcomeOK_mono) (use a in \<open>auto intro: streamed_trans\<close>)
qed

lemma tick_outcome:
  assumes sh: "gridShape w (rengerGrid s)"
  shows "outcomeOK (paletteValid (colorMapper s))
     (\<lambda>s'. (gridShape w (rengerGrid s') \<and> map (map indexPos) (rengerGrid s') = indexTable w)
        \<and> streamed s s') (tick w fr s)"
  unfolding tick_def
proof (intro outcomeOK_then[where w = w])
  show "outcomeOK (paletteValid (colorMapper s))
     (\<lambda>s'. gridShape w (rengerGrid s') \<and> streamed s s') (shiftIf w (topFires fr) addTopRow s)"
    using sh by (intro shiftIf_outcome addTopRow_outcome)
  show "outcomeOK (paletteValid (colorMapper s1))
     (\<lambda>s'. gridShape w (rengerGrid s') \<and> streamed s1 s') (shiftIf w (bottomFires fr) addBottomRow s1)"
    if "gridShape w (rengerGrid s1)" for s1
    using that by (intro shiftIf_outcome addBottomRow_outcome)
  show "outcomeOK (paletteValid (colorMapper s1))
     (\<lambda>s'. gridShape w (rengerGrid s') \<and> streamed s1 s') (shiftIf w (rightFires fr) addRightColumn s1)"
    if "gridShape w (rengerGrid s1)" for s1
    using that by (intro shiftIf_outcome addRightColumn_outcome)
  show "outcomeOK (paletteValid (colorMapper s1))
     (\<lambda>s'. gridShape w (rengerGrid s') \<and> streamed s1 s') (shiftIf w (leftFires fr) addLeftColumn s1)"
    if "gridShape w (rengerGrid s1)" for s1
    using that by (intro shiftIf_outcome addLeftColumn_outcome)
  show "outcomeOK (paletteValid (colorMapper s1))
     (\<lambda>s'. (gridShape w (rengerGrid s') \<and> map (map indexPos) (rengerGrid s') = indexTable w)
        \<and> streamed s1 s') (reassignIndex w s1)"
    if "gridShape w (rengerGrid s1)" for s1
    by (rule outcomeOK_weaken, rule outcomeOK_mono, rule reassignIndex_outcome[OF that]) simp
qed

lemma outcomeOK_cases:
  assumes "outcomeOK pv Q r"
  shows "(pv \<longrightarrow> (\<exists>x. r = Inr x)) \<and> (\<forall>x. r = Inr x \<longrightarrow> Q x) \<and>
         (\<forall>e. r = Inl e \<longrightarrow> e = InvalidHexColorFormat)"
  using assms by (cases r) auto



lemma paletteValid_colorMapper0: "paletteValid colorMapper0"
  by (auto simp add: paletteValid_def colorMapper0_def hexColorTest_def hexClass_def
      split: if_splits)




text \<open>
  C6. From a grid of full dimensions, any finite sequence of the four streaming operations
  that completes leaves the store with the same content: every read of a block returns
  what it returned before, the generator is the same, every chunk held before is held
  unchanged, and a chunk the reads have materialised is the one the generator gives. No
  operation writes a block. The sequence completes whenever every palette color is a valid
  hex color.
\<close>

theorem streaming_keeps_world:
  assumes "gridShape w (rengerGrid s)"
  shows "(paletteValid (colorMapper s) \<longrightarrow> (\<exists>s'. runShifts w ops s = Inr s')) \<and>
         (\<forall>s'. runShifts w ops s = Inr s' \<longrightarrow>
             (\<forall>H p. readBlock H (dimension s') p = readBlock H (dimension s) p) \<and>
             sameWorld (dimension s) (dimension s')) \<and>
         (\<forall>e. runShifts w ops s = Inl e \<longrightarrow> e = InvalidHexColorFormat)"
  using outcomeOK_cases[OF runShifts_outcome[OF assms, of ops]]
  by (auto simp add: streamed_def sameWorld_readBlock)

theorem streaming_keeps_world_witness:
  "gridShape \<lparr>HEIGHT = 16, innerWidthChunks = 0, innerHeightChunks = 0\<rparr>
     (rengerGrid ((render0 (\<lambda>p. Block ''stone''))
        \<lparr>rengerGrid := replicate 5 (replicate 5 \<lparr>indexPos = (0, 0), children = []\<rparr>)\<rparr>)) \<and>
   paletteValid (colorMapper ((render0 (\<lambda>p. Block ''stone''))
        \<lparr>rengerGrid := replicate 5 (replicate 5 \<lparr>indexPos = (0, 0), children = []\<rparr>)\<rparr>)) \<and>
   (\<exists>s'. runShifts \<lparr>HEIGHT = 16, innerWidthChunks = 0, innerHeightChunks = 0\<rparr>
            [AddRightColumn, AddRightColumn, AddLeftColumn]
            ((render0 (\<lambda>p. Block ''stone''))
               \<lparr>rengerGrid := replicate 5 (replicate 5 \<lparr>indexPos = (0, 0), children = []\<rparr>)\<rparr>)
          = Inr s' \<and>
        readBlock 16 (dimension s') \<lparr>px = - 20, py = 3, pz = 7\<rparr>
          = readBlock 16 (dimension ((render0 (\<lambda>p. Block ''stone''))
               \<lparr>rengerGrid := replicate 5 (replicate 5 \<lparr>indexPos = (0, 0), children = []\<rparr>)\<rparr>))
              \<lparr>px = - 20, py = 3, pz = 7\<rparr>)"
proof -
  let ?w = "\<lparr>HEIGHT = 16, innerWidthChunks = 0, innerHeightChunks = 0\<rparr>"
  let ?s = "(render0 (\<lambda>p. Block ''stone''))
        \<lparr>rengerGrid := replicate 5 (replicate 5 \<lparr>indexPos = (0, 0), children = []\<rparr>)\<rparr>"
  have g: "gridShape ?w (rengerGrid ?s)"
    by (simp add: gridShape_def yMaxChunkLength_def xMaxChunkLength_def)
  have pv: "paletteValid (colorMapper ?s)"
    by (simp add: render0_def paletteValid_colorMapper0)
  show ?thesis
    using streaming_keeps_world [OF g, of "[AddRightColumn, AddRightColumn, AddLeftColumn]"]
      g pv
    by blast
qed


section \<open>Editing by pointer: properties\<close>

lemma containerAt_Some:
  assumes "containerAt s idx = Some c"
  shows "0 \<le> fst idx" "nat (fst idx) < length (rengerGrid s)"
    "0 \<le> snd idx" "nat (snd idx) < length (rengerGrid s ! nat (fst idx))"
    "c = rengerGrid s ! nat (fst idx) ! nat (snd idx)"
    "jsIndex (rengerGrid s) (fst idx) = Some (rengerGrid s ! nat (fst idx))"
    "jsIndex (rengerGrid s ! nat (fst idx)) (snd idx) = Some c"
  using assms by (auto simp add: containerAt_def jsIndex_def split: option.splits if_splits)

lemma clickedSprite_container:
  assumes "clickedSprite s i j k = Some sp"
  shows "containerAt s (int i, int j) = Some (rengerGrid s ! i ! j)"
  using assms by (auto simp add: clickedSprite_def containerAt_def jsIndex_def split: option.splits if_splits)

lemma getTexture_available:
  assumes "color \<in> tex \<or> hexColorTest color"
  shows "getTexture tex color = Inr (insert color tex)"
  using assms by (auto simp add: getTexture_def colorVariants_def Let_def insert_absorb)

lemma renderBlockAt_ok:
  assumes tex: "color \<in> textures s \<or> hexColorTest color" and c: "containerAt s idx = Some c"
  shows "renderBlockAt s color p idx cc =
     (None, s\<lparr>textures := insert color (textures s),
              rengerGrid := gridAdd (rengerGrid s) idx (newSprite color p cc)\<rparr>)"
  using containerAt_Some[OF c] getTexture_available[OF tex]
  by (simp add: renderBlockAt_def gridAdd_def Let_def)

lemma renderBlockAdjacent_ok:
  assumes tex: "color \<in> textures s \<or> hexColorTest color" and c: "containerAt s idx = Some c"
  shows "renderBlockAdjacent s color p idx cc =
     (None, s\<lparr>textures := insert color (textures s),
              rengerGrid := gridAdd (rengerGrid s) idx (newSprite color p cc)\<rparr>)"
  using containerAt_Some(6)[OF c] renderBlockAt_ok[OF tex c]
  by (simp add: renderBlockAdjacent_def)


lemma containerAt_dimension [simp]: "containerAt (s\<lparr>dimension := d\<rparr>) idx = containerAt s idx"
  by (simp add: containerAt_def)

lemma selectedColor_dimension [simp]: "selectedColor (s\<lparr>dimension := d\<rparr>) = selectedColor s"
  by (simp add: selectedColor_def)

lemma setBlockIn_ok:
  assumes "0 \<le> pz p" "pz p < H"
  shows "\<exists>d'. setBlockIn H p b s = (None, s\<lparr>dimension := d'\<rparr>) \<and> blockAt d' p = b \<and>
          (\<forall>q. q \<noteq> p \<longrightarrow> blockAt d' q = blockAt (dimension s) q)"
proof -
  obtain d' where "setBlock H (dimension s) p b = Inr d'" "blockAt d' p = b"
    "\<forall>q. q \<noteq> p \<longrightarrow> blockAt d' q = blockAt (dimension s) q"
    using setBlock_in_range[OF assms, of "dimension s" b] by blast
  then show ?thesis by (auto simp add: setBlockIn_def)
qed

lemma pointerdown_key1:
  assumes "clickedSprite s i j k = Some sp" "isActive (keys s)" "lastKey (keys s) = Some 1"
  shows "pointerdown w s i j k 0 =
     andThen
       (if rz (pos sp) + 1 < chunkSize + 1
        then renderBlockAt s (selectedColor s) ((pos sp)\<lparr>rz := rz (pos sp) + 1\<rparr>) (int i, int j)
               (containerCenter sp)
        else renderBlockAdjacent s (selectedColor s)
               ((pos sp)\<lparr>rz := jsRem (rz (pos sp) + 1) (chunkSize + 1)\<rparr>)
               (fst (indexPos (rengerGrid s ! i ! j)) + 1, snd (indexPos (rengerGrid s ! i ! j)))
               (containerCenter sp))
       (setBlockIn (renderChunkHeight w)
          (neighborPos 1 (absolutePos (renderChunkHeight w) sp)) (Block (selectedBlockType s)))"
  using assms by (simp add: pointerdown_def Let_def neighborPos_def)

lemma pointerdown_key2:
  assumes "clickedSprite s i j k = Some sp" "isActive (keys s)" "lastKey (keys s) = Some 2"
  shows "pointerdown w s i j k 0 =
     andThen
       (setBlockIn (renderChunkHeight w)
          (neighborPos 2 (absolutePos (renderChunkHeight w) sp)) (Block (selectedBlockType s)) s)
       (\<lambda>s1.
          if rz (pos sp) - 1 \<ge> 0
          then renderBlockAt s1 (selectedColor s) ((pos sp)\<lparr>rz := rz (pos sp) - 1\<rparr>) (int i, int j)
                 (containerCenter sp)
          else renderBlockAdjacent s1 (selectedColor s)
                 ((pos sp)\<lparr>rz := rz (pos sp) - 1 + chunkSize + 1\<rparr>)
                 (fst (indexPos (rengerGrid s ! i ! j)) - 1, snd (indexPos (rengerGrid s ! i ! j)))
                 (containerCenter sp))"
  using assms by (simp add: pointerdown_def Let_def neighborPos_def)

lemma pointerdown_key3:
  assumes "clickedSprite s i j k = Some sp" "isActive (keys s)" "lastKey (keys s) = Some 3"
  shows "pointerdown w s i j k 0 =
     andThen
       (if rx (pos sp) - 1 \<ge> 0
        then renderBlockAt s (selectedColor s) ((pos sp)\<lparr>rx := rx (pos sp) - 1\<rparr>) (int i, int j)
               (containerCenter sp)
        else renderBlockAdjacent s (selectedColor s)
               ((pos sp)\<lparr>rx := rx (pos sp) - 1 + chunkSize + 1\<rparr>)
               (fst (indexPos (rengerGrid s ! i ! j)), snd (indexPos (rengerGrid s ! i ! j)) - 1)
               (containerCenter sp))
       (setBlockIn (renderChunkHeight w)
          (neighborPos 3 (absolutePos (renderChunkHeight w) sp)) (Block (selectedBlockType s)))"
  using assms by (simp add: pointerdown_def Let_def neighborPos_def)

lemma pointerdown_key4:
  assumes "clickedSprite s i j k = Some sp" "isActive (keys s)" "lastKey (keys s) = Some 4"
  shows "pointerdown w s i j k 0 =
     andThen
       (if rx (pos sp) + 1 < chunkSize + 1
        then renderBlockAt s (selectedColor s) ((pos sp)\<lparr>rx := rx (pos sp) + 1\<rparr>) (int i, int j)
               (containerCenter sp)
        else renderBlockAdjacent s (selectedColor s)
               ((pos sp)\<lparr>rx := jsRem (rx (pos sp) + 1) (chunkSize + 1)\<rparr>)
               (fst (indexPos (rengerGrid s ! i ! j)), snd (indexPos (rengerGrid s ! i ! j)) + 1)
               (containerCenter sp))
       (setBlockIn (renderChunkHeight w)
          (neighborPos 4 (absolutePos (renderChunkHeight w) sp)) (Block (selectedBlockType s)))"
  using assms by (simp add: pointerdown_def Let_def neighborPos_def)

lemma neighborPos_vertical:
  "neighborPos 5 q = q\<lparr>pz := pz q + 1\<rparr>" "neighborPos 6 q = q\<lparr>pz := pz q - 1\<rparr>"
  by (simp_all add: neighborPos_def)

lemma pointerdown_key5:
  assumes "clickedSprite s i j k = Some sp" "isActive (keys s)" "lastKey (keys s) = Some 5"
  shows "pointerdown w s i j k 0 =
     (case getBlock (renderChunkHeight w) (dimension s)
             (neighborPos 5 (absolutePos (renderChunkHeight w) sp)) of
        Inl e \<Rightarrow> (Some e, s)
      | Inr (b, d1) \<Rightarrow>
          if isEmptyBlock b \<and> pz (absolutePos (renderChunkHeight w) sp) + 1 < renderChunkHeight w
          then andThen
                 (renderBlockAt (s\<lparr>dimension := d1\<rparr>) (selectedColor s)
                    ((pos sp)\<lparr>ry := ry (pos sp) - 1\<rparr>) (int i, int j) (containerCenter sp))
                 (setBlockIn (renderChunkHeight w)
                    (neighborPos 5 (absolutePos (renderChunkHeight w) sp))
                    (Block (selectedBlockType s)))
          else (None, s\<lparr>dimension := d1\<rparr>))"
  using assms unfolding neighborPos_vertical by (simp add: pointerdown_def Let_def)

lemma pointerdown_key6:
  assumes "clickedSprite s i j k = Some sp" "isActive (keys s)" "lastKey (keys s) = Some 6"
  shows "pointerdown w s i j k 0 =
     (case getBlock (renderChunkHeight w) (dimension s)
             (neighborPos 6 (absolutePos (renderChunkHeight w) sp)) of
        Inl e \<Rightarrow> (Some e, s)
      | Inr (b, d1) \<Rightarrow>
          if isEmptyBlock b \<and> pz (absolutePos (renderChunkHeight w) sp) - 1 > 0
          then andThen
                 (renderBlockAt (s\<lparr>dimension := d1\<rparr>) (selectedColor s)
                    ((pos sp)\<lparr>ry := ry (pos sp) + 1\<rparr>) (int i, int j) (containerCenter sp))
                 (setBlockIn (renderChunkHeight w)
                    (neighborPos 6 (absolutePos (renderChunkHeight w) sp))
                    (Block (selectedBlockType s)))
          else (None, s\<lparr>dimension := d1\<rparr>))"
  using assms unfolding neighborPos_vertical by (simp add: pointerdown_def Let_def)

lemma andThen_None [simp]: "andThen (None, s) f = f s"
  by (simp add: andThen_def)

lemma andThen_Some [simp]: "andThen (Some e, s) f = (Some e, s)"
  by (simp add: andThen_def)

lemma render_then_set:
  assumes nb: "nb = neighborPos d (absolutePos (renderChunkHeight w) sp)"
    and tg: "tgt = placeTarget s i j sp d nb"
    and r: "r = (None, s\<lparr>dimension := d0, textures := t,
        rengerGrid := gridAdd (rengerGrid s) tgt
           (newSprite (selectedColor s) p' (containerCenter sp))\<rparr>)"
    and dm: "sameWorld (dimension s) d0"
    and inr: "0 \<le> pz nb" "pz nb < renderChunkHeight w"
    and ab: "insideBox (containerCenter sp) nb \<Longrightarrow>
       absolutePos (renderChunkHeight w) (newSprite (selectedColor s) p' (containerCenter sp)) = nb"
  shows "placedResult w s i j sp d
     (andThen r (setBlockIn (renderChunkHeight w) nb (Block (selectedBlockType s))))"
proof -
  define s1 where "s1 = s\<lparr>dimension := d0, textures := t,
        rengerGrid := gridAdd (rengerGrid s) tgt
           (newSprite (selectedColor s) p' (containerCenter sp))\<rparr>"
  obtain d' where d': "setBlockIn (renderChunkHeight w) nb (Block (selectedBlockType s)) s1
        = (None, s1\<lparr>dimension := d'\<rparr>)"
    "blockAt d' nb = Block (selectedBlockType s)"
    "\<forall>q. q \<noteq> nb \<longrightarrow> blockAt d' q = blockAt (dimension s1) q"
    using setBlockIn_ok[OF inr, of "Block (selectedBlockType s)" s1] by blast
  have e: "andThen r (setBlockIn (renderChunkHeight w) nb (Block (selectedBlockType s)))
     = (None, s1\<lparr>dimension := d'\<rparr>)"
    using d'(1) by (simp add: r s1_def)
  have q: "\<forall>q. q = nb \<or> blockAt d' q = blockAt (dimension s) q"
    using d'(3) sameWorld_blockAt[OF dm] by (auto simp add: s1_def)
  have g: "rengerGrid (s1\<lparr>dimension := d'\<rparr>) = gridAdd (rengerGrid s) tgt
           (newSprite (selectedColor s) p' (containerCenter sp))"
    by (simp add: s1_def)
  have b: "blockAt (dimension (s1\<lparr>dimension := d'\<rparr>)) nb = Block (selectedBlockType s)"
    using d'(2) by simp
  have q': "\<forall>q. q = nb \<or> blockAt (dimension (s1\<lparr>dimension := d'\<rparr>)) q = blockAt (dimension s) q"
    using q by simp
  show ?thesis
    unfolding placedResult_def nb[symmetric] tg[symmetric] e
    using g b q' ab by (intro exI[of _ "s1\<lparr>dimension := d'\<rparr>"] exI[of _ p']) simp
qed

lemma set_then_render:
  assumes nb: "nb = neighborPos d (absolutePos (renderChunkHeight w) sp)"
    and tg: "tgt = placeTarget s i j sp d nb"
    and rend: "\<And>d'. f (s\<lparr>dimension := d'\<rparr>) = (None, s\<lparr>dimension := d', textures := t,
        rengerGrid := gridAdd (rengerGrid s) tgt
           (newSprite (selectedColor s) p' (containerCenter sp))\<rparr>)"
    and inr: "0 \<le> pz nb" "pz nb < renderChunkHeight w"
    and ab: "insideBox (containerCenter sp) nb \<Longrightarrow>
       absolutePos (renderChunkHeight w) (newSprite (selectedColor s) p' (containerCenter sp)) = nb"
  shows "placedResult w s i j sp d
     (andThen (setBlockIn (renderChunkHeight w) nb (Block (selectedBlockType s)) s) f)"
proof -
  obtain d' where d': "setBlockIn (renderChunkHeight w) nb (Block (selectedBlockType s)) s
        = (None, s\<lparr>dimension := d'\<rparr>)"
    "blockAt d' nb = Block (selectedBlockType s)"
    "\<forall>q. q \<noteq> nb \<longrightarrow> blockAt d' q = blockAt (dimension s) q"
    using setBlockIn_ok[OF inr, of "Block (selectedBlockType s)" s] by blast
  define s2 where "s2 = s\<lparr>dimension := d', textures := t,
        rengerGrid := gridAdd (rengerGrid s) tgt
           (newSprite (selectedColor s) p' (containerCenter sp))\<rparr>"
  have e: "andThen (setBlockIn (renderChunkHeight w) nb (Block (selectedBlockType s)) s) f = (None, s2)"
    by (simp add: d'(1) rend s2_def)
  have g: "rengerGrid s2 = gridAdd (rengerGrid s) tgt
           (newSprite (selectedColor s) p' (containerCenter sp))"
    by (simp add: s2_def)
  have b: "blockAt (dimension s2) nb = Block (selectedBlockType s)"
    using d'(2) by (simp add: s2_def)
  have q': "\<forall>q. q = nb \<or> blockAt (dimension s2) q = blockAt (dimension s) q"
    using d'(3) by (auto simp add: s2_def)
  show ?thesis
    unfolding placedResult_def nb[symmetric] tg[symmetric] e
    using g b q' ab by (intro exI[of _ s2] exI[of _ p']) simp
qed

lemma absolutePos_newSprite:
  "absolutePos H (newSprite color p cc)
     = \<lparr>px = fst cc - 4 + rx p, py = snd cc - 4 + rz p, pz = H - ry p - 1\<rparr>"
  by (simp add: absolutePos_def newSprite_def ceilHalf_def renderChunkSize_def)

lemma absolutePos_record:
  "absolutePos H sp = \<lparr>px = fst (containerCenter sp) - 4 + rx (pos sp),
      py = snd (containerCenter sp) - 4 + rz (pos sp), pz = H - ry (pos sp) - 1\<rparr>"
  by (simp add: absolutePos_def ceilHalf_def renderChunkSize_def)

lemma record_same_dimension: "s\<lparr>dimension := dimension s, textures := t, rengerGrid := g\<rparr>
   = s\<lparr>textures := t, rengerGrid := g\<rparr>"
  by simp

lemma place_key1:
  assumes sp: "clickedSprite s i j k = Some sp" and act: "isActive (keys s)"
    and key: "lastKey (keys s) = Some 1"
    and tex: "selectedColor s \<in> textures s \<or> hexColorTest (selectedColor s)"
    and box: "0 \<le> rx (pos sp)" "rx (pos sp) \<le> 8" "0 \<le> rz (pos sp)" "rz (pos sp) \<le> 8"
    and height: "0 \<le> pz (absolutePos (renderChunkHeight w) sp)"
      "pz (absolutePos (renderChunkHeight w) sp) < renderChunkHeight w"
    and tgt: "containerAt s (placeTarget s i j sp 1
        (neighborPos 1 (absolutePos (renderChunkHeight w) sp))) = Some c"
  shows "placedResult w s i j sp 1 (pointerdown w s i j k 0)"
proof -
  define nb where "nb = neighborPos 1 (absolutePos (renderChunkHeight w) sp)"
  have nbr: "nb = \<lparr>px = fst (containerCenter sp) - 4 + rx (pos sp),
      py = snd (containerCenter sp) - 4 + rz (pos sp) + 1,
      pz = renderChunkHeight w - ry (pos sp) - 1\<rparr>"
    by (simp add: nb_def neighborPos_def absolutePos_record)
  have ins: "insideBox (containerCenter sp) nb = (rz (pos sp) + 1 < chunkSize + 1)"
    using box by (auto simp add: nbr insideBox_def chunkSize_def)
  have inr: "0 \<le> pz nb" "pz nb < renderChunkHeight w"
    using height by (simp_all add: nbr absolutePos_record)
  have eq: "pointerdown w s i j k 0 =
     andThen
       (if rz (pos sp) + 1 < chunkSize + 1
        then renderBlockAt s (selectedColor s) ((pos sp)\<lparr>rz := rz (pos sp) + 1\<rparr>) (int i, int j)
               (containerCenter sp)
        else renderBlockAdjacent s (selectedColor s)
               ((pos sp)\<lparr>rz := jsRem (rz (pos sp) + 1) (chunkSize + 1)\<rparr>)
               (fst (indexPos (rengerGrid s ! i ! j)) + 1, snd (indexPos (rengerGrid s ! i ! j)))
               (containerCenter sp))
       (setBlockIn (renderChunkHeight w) nb (Block (selectedBlockType s)))"
    unfolding nb_def by (rule pointerdown_key1[OF sp act key])
  show ?thesis
  proof (cases "rz (pos sp) + 1 < chunkSize + 1")
    case True
    have t: "(int i, int j) = placeTarget s i j sp 1 nb"
      using True ins by (simp add: placeTarget_def)
    have c: "containerAt s (int i, int j) = Some c"
      using tgt by (simp only: nb_def[symmetric] t[symmetric])
    have r: "renderBlockAt s (selectedColor s) ((pos sp)\<lparr>rz := rz (pos sp) + 1\<rparr>) (int i, int j)
               (containerCenter sp)
       = (None, s\<lparr>dimension := dimension s, textures := insert (selectedColor s) (textures s),
            rengerGrid := gridAdd (rengerGrid s) (int i, int j)
              (newSprite (selectedColor s) ((pos sp)\<lparr>rz := rz (pos sp) + 1\<rparr>) (containerCenter sp))\<rparr>)"
      unfolding record_same_dimension by (rule renderBlockAt_ok[OF tex c])
    have ab: "absolutePos (renderChunkHeight w)
        (newSprite (selectedColor s) ((pos sp)\<lparr>rz := rz (pos sp) + 1\<rparr>) (containerCenter sp)) = nb"
      by (simp add: absolutePos_newSprite nbr)
    have "placedResult w s i j sp 1
       (andThen (renderBlockAt s (selectedColor s) ((pos sp)\<lparr>rz := rz (pos sp) + 1\<rparr>) (int i, int j)
               (containerCenter sp))
          (setBlockIn (renderChunkHeight w) nb (Block (selectedBlockType s))))"
      by (rule render_then_set[OF nb_def t r sameWorld_refl inr ab])
    then show ?thesis using True by (simp only: eq if_True)
  next
    case False
    have t: "(fst (indexPos (rengerGrid s ! i ! j)) + 1, snd (indexPos (rengerGrid s ! i ! j))) = placeTarget s i j sp 1 nb"
      using False ins by (simp add: placeTarget_def adjacentIndex_def)
    have c: "containerAt s (fst (indexPos (rengerGrid s ! i ! j)) + 1, snd (indexPos (rengerGrid s ! i ! j))) = Some c"
      using tgt by (simp only: nb_def[symmetric] t[symmetric])
    have r: "renderBlockAdjacent s (selectedColor s) ((pos sp)\<lparr>rz := jsRem (rz (pos sp) + 1) (chunkSize + 1)\<rparr>)
               (fst (indexPos (rengerGrid s ! i ! j)) + 1, snd (indexPos (rengerGrid s ! i ! j))) (containerCenter sp)
       = (None, s\<lparr>dimension := dimension s, textures := insert (selectedColor s) (textures s),
            rengerGrid := gridAdd (rengerGrid s) (fst (indexPos (rengerGrid s ! i ! j)) + 1, snd (indexPos (rengerGrid s ! i ! j)))
              (newSprite (selectedColor s) ((pos sp)\<lparr>rz := jsRem (rz (pos sp) + 1) (chunkSize + 1)\<rparr>) (containerCenter sp))\<rparr>)"
      unfolding record_same_dimension by (rule renderBlockAdjacent_ok[OF tex c])
    have ab: "absolutePos (renderChunkHeight w)
        (newSprite (selectedColor s) ((pos sp)\<lparr>rz := jsRem (rz (pos sp) + 1) (chunkSize + 1)\<rparr>) (containerCenter sp)) = nb"
      if "insideBox (containerCenter sp) nb"
      using that False ins by simp
    have "placedResult w s i j sp 1
       (andThen (renderBlockAdjacent s (selectedColor s) ((pos sp)\<lparr>rz := jsRem (rz (pos sp) + 1) (chunkSize + 1)\<rparr>)
               (fst (indexPos (rengerGrid s ! i ! j)) + 1, snd (indexPos (rengerGrid s ! i ! j))) (containerCenter sp))
          (setBlockIn (renderChunkHeight w) nb (Block (selectedBlockType s))))"
      by (rule render_then_set[OF nb_def t r sameWorld_refl inr ab])
    then show ?thesis using False by (simp only: eq if_False)
  qed
qed

lemma place_key3:
  assumes sp: "clickedSprite s i j k = Some sp" and act: "isActive (keys s)"
    and key: "lastKey (keys s) = Some 3"
    and tex: "selectedColor s \<in> textures s \<or> hexColorTest (selectedColor s)"
    and box: "0 \<le> rx (pos sp)" "rx (pos sp) \<le> 8" "0 \<le> rz (pos sp)" "rz (pos sp) \<le> 8"
    and height: "0 \<le> pz (absolutePos (renderChunkHeight w) sp)"
      "pz (absolutePos (renderChunkHeight w) sp) < renderChunkHeight w"
    and tgt: "containerAt s (placeTarget s i j sp 3
        (neighborPos 3 (absolutePos (renderChunkHeight w) sp))) = Some c"
  shows "placedResult w s i j sp 3 (pointerdown w s i j k 0)"
proof -
  define nb where "nb = neighborPos 3 (absolutePos (renderChunkHeight w) sp)"
  have nbr: "nb = \<lparr>px = fst (containerCenter sp) - 4 + rx (pos sp) - 1,
      py = snd (containerCenter sp) - 4 + rz (pos sp),
      pz = renderChunkHeight w - ry (pos sp) - 1\<rparr>"
    by (simp add: nb_def neighborPos_def absolutePos_record)
  have ins: "insideBox (containerCenter sp) nb = (rx (pos sp) - 1 \<ge> 0)"
    using box by (auto simp add: nbr insideBox_def chunkSize_def)
  have inr: "0 \<le> pz nb" "pz nb < renderChunkHeight w"
    using height by (simp_all add: nbr absolutePos_record)
  have eq: "pointerdown w s i j k 0 =
     andThen
       (if rx (pos sp) - 1 \<ge> 0
        then renderBlockAt s (selectedColor s) ((pos sp)\<lparr>rx := rx (pos sp) - 1\<rparr>) (int i, int j)
               (containerCenter sp)
        else renderBlockAdjacent s (selectedColor s)
               ((pos sp)\<lparr>rx := rx (pos sp) - 1 + chunkSize + 1\<rparr>)
               (fst (indexPos (rengerGrid s ! i ! j)), snd (indexPos (rengerGrid s ! i ! j)) - 1)
               (containerCenter sp))
       (setBlockIn (renderChunkHeight w) nb (Block (selectedBlockType s)))"
    unfolding nb_def by (rule pointerdown_key3[OF sp act key])
  show ?thesis
  proof (cases "rx (pos sp) - 1 \<ge> 0")
    case True
    have t: "(int i, int j) = placeTarget s i j sp 3 nb"
      using True ins by (simp add: placeTarget_def)
    have c: "containerAt s (int i, int j) = Some c"
      using tgt by (simp only: nb_def[symmetric] t[symmetric])
    have r: "renderBlockAt s (selectedColor s) ((pos sp)\<lparr>rx := rx (pos sp) - 1\<rparr>) (int i, int j)
               (containerCenter sp)
       = (None, s\<lparr>dimension := dimension s, textures := insert (selectedColor s) (textures s),
            rengerGrid := gridAdd (rengerGrid s) (int i, int j)
              (newSprite (selectedColor s) ((pos sp)\<lparr>rx := rx (pos sp) - 1\<rparr>) (containerCenter sp))\<rparr>)"
      unfolding record_same_dimension by (rule renderBlockAt_ok[OF tex c])
    have ab: "absolutePos (renderChunkHeight w)
        (newSprite (selectedColor s) ((pos sp)\<lparr>rx := rx (pos sp) - 1\<rparr>) (containerCenter sp)) = nb"
      by (simp add: absolutePos_newSprite nbr)
    have "placedResult w s i j sp 3
       (andThen (renderBlockAt s (selectedColor s) ((pos sp)\<lparr>rx := rx (pos sp) - 1\<rparr>) (int i, int j)
               (containerCenter sp))
          (setBlockIn (renderChunkHeight w) nb (Block (selectedBlockType s))))"
      by (rule render_then_set[OF nb_def t r sameWorld_refl inr ab])
    then show ?thesis using True by (simp only: eq if_True)
  next
    case False
    have t: "(fst (indexPos (rengerGrid s ! i ! j)), snd (indexPos (rengerGrid s ! i ! j)) - 1) = placeTarget s i j sp 3 nb"
      using False ins by (simp add: placeTarget_def adjacentIndex_def)
    have c: "containerAt s (fst (indexPos (rengerGrid s ! i ! j)), snd (indexPos (rengerGrid s ! i ! j)) - 1) = Some c"
      using tgt by (simp only: nb_def[symmetric] t[symmetric])
    have r: "renderBlockAdjacent s (selectedColor s) ((pos sp)\<lparr>rx := rx (pos sp) - 1 + chunkSize + 1\<rparr>)
               (fst (indexPos (rengerGrid s ! i ! j)), snd (indexPos (rengerGrid s ! i ! j)) - 1) (containerCenter sp)
       = (None, s\<lparr>dimension := dimension s, textures := insert (selectedColor s) (textures s),
            rengerGrid := gridAdd (rengerGrid s) (fst (indexPos (rengerGrid s ! i ! j)), snd (indexPos (rengerGrid s ! i ! j)) - 1)
              (newSprite (selectedColor s) ((pos sp)\<lparr>rx := rx (pos sp) - 1 + chunkSize + 1\<rparr>) (containerCenter sp))\<rparr>)"
      unfolding record_same_dimension by (rule renderBlockAdjacent_ok[OF tex c])
    have ab: "absolutePos (renderChunkHeight w)
        (newSprite (selectedColor s) ((pos sp)\<lparr>rx := rx (pos sp) - 1 + chunkSize + 1\<rparr>) (containerCenter sp)) = nb"
      if "insideBox (containerCenter sp) nb"
      using that False ins by simp
    have "placedResult w s i j sp 3
       (andThen (renderBlockAdjacent s (selectedColor s) ((pos sp)\<lparr>rx := rx (pos sp) - 1 + chunkSize + 1\<rparr>)
               (fst (indexPos (rengerGrid s ! i ! j)), snd (indexPos (rengerGrid s ! i ! j)) - 1) (containerCenter sp))
          (setBlockIn (renderChunkHeight w) nb (Block (selectedBlockType s))))"
      by (rule render_then_set[OF nb_def t r sameWorld_refl inr ab])
    then show ?thesis using False by (simp only: eq if_False)
  qed
qed

lemma place_key4:
  assumes sp: "clickedSprite s i j k = Some sp" and act: "isActive (keys s)"
    and key: "lastKey (keys s) = Some 4"
    and tex: "selectedColor s \<in> textures s \<or> hexColorTest (selectedColor s)"
    and box: "0 \<le> rx (pos sp)" "rx (pos sp) \<le> 8" "0 \<le> rz (pos sp)" "rz (pos sp) \<le> 8"
    and height: "0 \<le> pz (absolutePos (renderChunkHeight w) sp)"
      "pz (absolutePos (renderChunkHeight w) sp) < renderChunkHeight w"
    and tgt: "containerAt s (placeTarget s i j sp 4
        (neighborPos 4 (absolutePos (renderChunkHeight w) sp))) = Some c"
  shows "placedResult w s i j sp 4 (pointerdown w s i j k 0)"
proof -
  define nb where "nb = neighborPos 4 (absolutePos (renderChunkHeight w) sp)"
  have nbr: "nb = \<lparr>px = fst (containerCenter sp) - 4 + rx (pos sp) + 1,
      py = snd (containerCenter sp) - 4 + rz (pos sp),
      pz = renderChunkHeight w - ry (pos sp) - 1\<rparr>"
    by (simp add: nb_def neighborPos_def absolutePos_record)
  have ins: "insideBox (containerCenter sp) nb = (rx (pos sp) + 1 < chunkSize + 1)"
    using box by (auto simp add: nbr insideBox_def chunkSize_def)
  have inr: "0 \<le> pz nb" "pz nb < renderChunkHeight w"
    using height by (simp_all add: nbr absolutePos_record)
  have eq: "pointerdown w s i j k 0 =
     andThen
       (if rx (pos sp) + 1 < chunkSize + 1
        then renderBlockAt s (selectedColor s) ((pos sp)\<lparr>rx := rx (pos sp) + 1\<rparr>) (int i, int j)
               (containerCenter sp)
        else renderBlockAdjacent s (selectedColor s)
               ((pos sp)\<lparr>rx := jsRem (rx (pos sp) + 1) (chunkSize + 1)\<rparr>)
               (fst (indexPos (rengerGrid s ! i ! j)), snd (indexPos (rengerGrid s ! i ! j)) + 1)
               (containerCenter sp))
       (setBlockIn (renderChunkHeight w) nb (Block (selectedBlockType s)))"
    unfolding nb_def by (rule pointerdown_key4[OF sp act key])
  show ?thesis
  proof (cases "rx (pos sp) + 1 < chunkSize + 1")
    case True
    have t: "(int i, int j) = placeTarget s i j sp 4 nb"
      using True ins by (simp add: placeTarget_def)
    have c: "containerAt s (int i, int j) = Some c"
      using tgt by (simp only: nb_def[symmetric] t[symmetric])
    have r: "renderBlockAt s (selectedColor s) ((pos sp)\<lparr>rx := rx (pos sp) + 1\<rparr>) (int i, int j)
               (containerCenter sp)
       = (None, s\<lparr>dimension := dimension s, textures := insert (selectedColor s) (textures s),
            rengerGrid := gridAdd (rengerGrid s) (int i, int j)
              (newSprite (selectedColor s) ((pos sp)\<lparr>rx := rx (pos sp) + 1\<rparr>) (containerCenter sp))\<rparr>)"
      unfolding record_same_dimension by (rule renderBlockAt_ok[OF tex c])
    have ab: "absolutePos (renderChunkHeight w)
        (newSprite (selectedColor s) ((pos sp)\<lparr>rx := rx (pos sp) + 1\<rparr>) (containerCenter sp)) = nb"
      by (simp add: absolutePos_newSprite nbr)
    have "placedResult w s i j sp 4
       (andThen (renderBlockAt s (selectedColor s) ((pos sp)\<lparr>rx := rx (pos sp) + 1\<rparr>) (int i, int j)
               (containerCenter sp))
          (setBlockIn (renderChunkHeight w) nb (Block (selectedBlockType s))))"
      by (rule render_then_set[OF nb_def t r sameWorld_refl inr ab])
    then show ?thesis using True by (simp only: eq if_True)
  next
    case False
    have t: "(fst (indexPos (rengerGrid s ! i ! j)), snd (indexPos (rengerGrid s ! i ! j)) + 1) = placeTarget s i j sp 4 nb"
      using False ins by (simp add: placeTarget_def adjacentIndex_def)
    have c: "containerAt s (fst (indexPos (rengerGrid s ! i ! j)), snd (indexPos (rengerGrid s ! i ! j)) + 1) = Some c"
      using tgt by (simp only: nb_def[symmetric] t[symmetric])
    have r: "renderBlockAdjacent s (selectedColor s) ((pos sp)\<lparr>rx := jsRem (rx (pos sp) + 1) (chunkSize + 1)\<rparr>)
               (fst (indexPos (rengerGrid s ! i ! j)), snd (indexPos (rengerGrid s ! i ! j)) + 1) (containerCenter sp)
       = (None, s\<lparr>dimension := dimension s, textures := insert (selectedColor s) (textures s),
            rengerGrid := gridAdd (rengerGrid s) (fst (indexPos (rengerGrid s ! i ! j)), snd (indexPos (rengerGrid s ! i ! j)) + 1)
              (newSprite (selectedColor s) ((pos sp)\<lparr>rx := jsRem (rx (pos sp) + 1) (chunkSize + 1)\<rparr>) (containerCenter sp))\<rparr>)"
      unfolding record_same_dimension by (rule renderBlockAdjacent_ok[OF tex c])
    have ab: "absolutePos (renderChunkHeight w)
        (newSprite (selectedColor s) ((pos sp)\<lparr>rx := jsRem (rx (pos sp) + 1) (chunkSize + 1)\<rparr>) (containerCenter sp)) = nb"
      if "insideBox (containerCenter sp) nb"
      using that False ins by simp
    have "placedResult w s i j sp 4
       (andThen (renderBlockAdjacent s (selectedColor s) ((pos sp)\<lparr>rx := jsRem (rx (pos sp) + 1) (chunkSize + 1)\<rparr>)
               (fst (indexPos (rengerGrid s ! i ! j)), snd (indexPos (rengerGrid s ! i ! j)) + 1) (containerCenter sp))
          (setBlockIn (renderChunkHeight w) nb (Block (selectedBlockType s))))"
      by (rule render_then_set[OF nb_def t r sameWorld_refl inr ab])
    then show ?thesis using False by (simp only: eq if_False)
  qed
qed


lemma renderBlockAt_after_write:
  assumes tex: "color \<in> textures s \<or> hexColorTest color" and c: "containerAt s idx = Some c"
  shows "renderBlockAt (s\<lparr>dimension := d'\<rparr>) color p idx cc =
     (None, s\<lparr>dimension := d', textures := insert color (textures s),
              rengerGrid := gridAdd (rengerGrid s) idx (newSprite color p cc)\<rparr>)"
proof -
  have "color \<in> textures (s\<lparr>dimension := d'\<rparr>) \<or> hexColorTest color" using tex by simp
  moreover have "containerAt (s\<lparr>dimension := d'\<rparr>) idx = Some c" using c by simp
  ultimately show ?thesis
    using renderBlockAt_ok[of color "s\<lparr>dimension := d'\<rparr>" idx c p cc] by simp
qed

lemma renderBlockAdjacent_after_write:
  assumes tex: "color \<in> textures s \<or> hexColorTest color" and c: "containerAt s idx = Some c"
  shows "renderBlockAdjacent (s\<lparr>dimension := d'\<rparr>) color p idx cc =
     (None, s\<lparr>dimension := d', textures := insert color (textures s),
              rengerGrid := gridAdd (rengerGrid s) idx (newSprite color p cc)\<rparr>)"
proof -
  have "color \<in> textures (s\<lparr>dimension := d'\<rparr>) \<or> hexColorTest color" using tex by simp
  moreover have "containerAt (s\<lparr>dimension := d'\<rparr>) idx = Some c" using c by simp
  ultimately show ?thesis
    using renderBlockAdjacent_ok[of color "s\<lparr>dimension := d'\<rparr>" idx c p cc] by simp
qed

lemma place_key2:
  assumes sp: "clickedSprite s i j k = Some sp" and act: "isActive (keys s)"
    and key: "lastKey (keys s) = Some 2"
    and tex: "selectedColor s \<in> textures s \<or> hexColorTest (selectedColor s)"
    and box: "0 \<le> rx (pos sp)" "rx (pos sp) \<le> 8" "0 \<le> rz (pos sp)" "rz (pos sp) \<le> 8"
    and height: "0 \<le> pz (absolutePos (renderChunkHeight w) sp)"
      "pz (absolutePos (renderChunkHeight w) sp) < renderChunkHeight w"
    and tgt: "containerAt s (placeTarget s i j sp 2
        (neighborPos 2 (absolutePos (renderChunkHeight w) sp))) = Some c"
  shows "placedResult w s i j sp 2 (pointerdown w s i j k 0)"
proof -
  define nb where "nb = neighborPos 2 (absolutePos (renderChunkHeight w) sp)"
  have nbr: "nb = \<lparr>px = fst (containerCenter sp) - 4 + rx (pos sp),
      py = snd (containerCenter sp) - 4 + rz (pos sp) - 1,
      pz = renderChunkHeight w - ry (pos sp) - 1\<rparr>"
    by (simp add: nb_def neighborPos_def absolutePos_record)
  have ins: "insideBox (containerCenter sp) nb = (rz (pos sp) - 1 \<ge> 0)"
    using box by (auto simp add: nbr insideBox_def chunkSize_def)
  have inr: "0 \<le> pz nb" "pz nb < renderChunkHeight w"
    using height by (simp_all add: nbr absolutePos_record)
  define f where "f = (\<lambda>s1.
          if rz (pos sp) - 1 \<ge> 0
          then renderBlockAt s1 (selectedColor s) ((pos sp)\<lparr>rz := rz (pos sp) - 1\<rparr>) (int i, int j)
                 (containerCenter sp)
          else renderBlockAdjacent s1 (selectedColor s)
                 ((pos sp)\<lparr>rz := rz (pos sp) - 1 + chunkSize + 1\<rparr>)
                 (fst (indexPos (rengerGrid s ! i ! j)) - 1, snd (indexPos (rengerGrid s ! i ! j)))
                 (containerCenter sp))"
  have eq: "pointerdown w s i j k 0 =
     andThen (setBlockIn (renderChunkHeight w) nb (Block (selectedBlockType s)) s) f"
    unfolding nb_def f_def by (rule pointerdown_key2[OF sp act key])
  show ?thesis
  proof (cases "rz (pos sp) - 1 \<ge> 0")
    case True
    have t: "(int i, int j) = placeTarget s i j sp 2 nb"
      using True ins by (simp add: placeTarget_def)
    have c: "containerAt s (int i, int j) = Some c"
      using tgt by (simp only: nb_def[symmetric] t[symmetric])
    have r: "f (s\<lparr>dimension := d'\<rparr>)
       = (None, s\<lparr>dimension := d', textures := insert (selectedColor s) (textures s),
            rengerGrid := gridAdd (rengerGrid s) (int i, int j)
              (newSprite (selectedColor s) ((pos sp)\<lparr>rz := rz (pos sp) - 1\<rparr>) (containerCenter sp))\<rparr>)" for d'
      using True renderBlockAt_after_write[OF tex c] by (simp add: f_def)
    have ab: "absolutePos (renderChunkHeight w)
        (newSprite (selectedColor s) ((pos sp)\<lparr>rz := rz (pos sp) - 1\<rparr>) (containerCenter sp)) = nb"
      by (simp add: absolutePos_newSprite nbr)
    show ?thesis unfolding eq
      by (rule set_then_render[OF nb_def t r inr ab])
  next
    case False
    have t: "(fst (indexPos (rengerGrid s ! i ! j)) - 1, snd (indexPos (rengerGrid s ! i ! j)))
         = placeTarget s i j sp 2 nb"
      using False ins by (simp add: placeTarget_def adjacentIndex_def)
    have c: "containerAt s (fst (indexPos (rengerGrid s ! i ! j)) - 1, snd (indexPos (rengerGrid s ! i ! j))) = Some c"
      using tgt by (simp only: nb_def[symmetric] t[symmetric])
    have r: "f (s\<lparr>dimension := d'\<rparr>)
       = (None, s\<lparr>dimension := d', textures := insert (selectedColor s) (textures s),
            rengerGrid := gridAdd (rengerGrid s)
              (fst (indexPos (rengerGrid s ! i ! j)) - 1, snd (indexPos (rengerGrid s ! i ! j)))
              (newSprite (selectedColor s) ((pos sp)\<lparr>rz := rz (pos sp) - 1 + chunkSize + 1\<rparr>)
                 (containerCenter sp))\<rparr>)" for d'
      using False renderBlockAdjacent_after_write[OF tex c] by (simp add: f_def)
    have ab: "absolutePos (renderChunkHeight w)
        (newSprite (selectedColor s) ((pos sp)\<lparr>rz := rz (pos sp) - 1 + chunkSize + 1\<rparr>)
           (containerCenter sp)) = nb"
      if "insideBox (containerCenter sp) nb"
      using that False ins by simp
    show ?thesis unfolding eq
      by (rule set_then_render[OF nb_def t r inr ab])
  qed
qed

lemma place_vertical:
  assumes sp: "clickedSprite s i j k = Some sp" and act: "isActive (keys s)"
    and key: "lastKey (keys s) = Some d" and d: "d = 5 \<or> d = 6"
    and tex: "selectedColor s \<in> textures s \<or> hexColorTest (selectedColor s)"
    and box: "0 \<le> rx (pos sp)" "rx (pos sp) \<le> 8" "0 \<le> rz (pos sp)" "rz (pos sp) \<le> 8"
    and height: "0 \<le> pz (absolutePos (renderChunkHeight w) sp)"
      "pz (absolutePos (renderChunkHeight w) sp) < renderChunkHeight w"
    and free: "isEmptyBlock (blockAt (dimension s) (neighborPos d (absolutePos (renderChunkHeight w) sp)))"
    and rng: "0 < pz (neighborPos d (absolutePos (renderChunkHeight w) sp))"
      "pz (neighborPos d (absolutePos (renderChunkHeight w) sp)) < renderChunkHeight w"
  shows "placedResult w s i j sp d (pointerdown w s i j k 0)"
proof -
  define nb where "nb = neighborPos d (absolutePos (renderChunkHeight w) sp)"
  define p' where "p' = (if d = 5 then (pos sp)\<lparr>ry := ry (pos sp) - 1\<rparr> else (pos sp)\<lparr>ry := ry (pos sp) + 1\<rparr>)"
  have nbr: "nb = \<lparr>px = fst (containerCenter sp) - 4 + rx (pos sp),
      py = snd (containerCenter sp) - 4 + rz (pos sp),
      pz = renderChunkHeight w - ry (pos sp) - 1 + (if d = 5 then 1 else - 1)\<rparr>"
    using d by (auto simp add: nb_def neighborPos_def absolutePos_record)
  have ins: "insideBox (containerCenter sp) nb"
    using box by (auto simp add: nbr insideBox_def)
  have t: "(int i, int j) = placeTarget s i j sp d nb"
    using ins by (simp add: placeTarget_def)
  have inr: "0 \<le> pz nb" "pz nb < renderChunkHeight w" using rng by (simp_all add: nb_def)
  obtain d1 where g: "getBlock (renderChunkHeight w) (dimension s) nb = Inr (blockAt (dimension s) nb, d1)"
    and sw: "sameWorld (dimension s) d1"
    using getBlock_in_range[OF inr, of "dimension s"] by blast
  have c: "containerAt s (int i, int j) = Some (rengerGrid s ! i ! j)"
    by (rule clickedSprite_container[OF sp])
  have r: "renderBlockAt (s\<lparr>dimension := d1\<rparr>) (selectedColor s) p' (int i, int j) (containerCenter sp)
       = (None, s\<lparr>dimension := d1, textures := insert (selectedColor s) (textures s),
            rengerGrid := gridAdd (rengerGrid s) (int i, int j)
              (newSprite (selectedColor s) p' (containerCenter sp))\<rparr>)"
    by (rule renderBlockAt_after_write[OF tex c])
  have ab: "absolutePos (renderChunkHeight w) (newSprite (selectedColor s) p' (containerCenter sp)) = nb"
    using d by (auto simp add: absolutePos_newSprite nbr p'_def)
  have fin: "placedResult w s i j sp d
     (andThen (renderBlockAt (s\<lparr>dimension := d1\<rparr>) (selectedColor s) p' (int i, int j) (containerCenter sp))
        (setBlockIn (renderChunkHeight w) nb (Block (selectedBlockType s))))"
    by (rule render_then_set[OF nb_def t r sw inr ab])
  have fr: "isEmptyBlock (blockAt (dimension s) nb)" using free by (simp add: nb_def)
  from d show ?thesis
  proof
    assume d5: "d = 5"
    have guard: "pz (absolutePos (renderChunkHeight w) sp) + 1 < renderChunkHeight w"
      using inr(2) by (simp add: nbr d5 absolutePos_record)
    have "pointerdown w s i j k 0 =
        andThen (renderBlockAt (s\<lparr>dimension := d1\<rparr>) (selectedColor s) p' (int i, int j) (containerCenter sp))
        (setBlockIn (renderChunkHeight w) nb (Block (selectedBlockType s)))"
      unfolding pointerdown_key5[OF sp act key[unfolded d5]] nb_def[unfolded d5, symmetric]
      using g fr guard by (simp add: p'_def d5)
    then show ?thesis using fin by simp
  next
    assume d6: "d = 6"
    have guard: "pz (absolutePos (renderChunkHeight w) sp) - 1 > 0"
      using rng(1) by (simp add: d6 neighborPos_def)
    have "pointerdown w s i j k 0 =
        andThen (renderBlockAt (s\<lparr>dimension := d1\<rparr>) (selectedColor s) p' (int i, int j) (containerCenter sp))
        (setBlockIn (renderChunkHeight w) nb (Block (selectedBlockType s)))"
      unfolding pointerdown_key6[OF sp act key[unfolded d6]] nb_def[unfolded d6, symmetric]
      using g fr guard by (simp add: p'_def d6)
    then show ?thesis using fin by simp
  qed
qed

lemma renderBlockAt_keeps:
  "dimension (snd (renderBlockAt s color p idx cc)) = dimension s"
  by (simp add: renderBlockAt_def Let_def split: sum.splits option.splits)

lemma renderBlockAt_cases:
  obtains e s1 where "renderBlockAt s color p idx cc = (e, s1)" "dimension s1 = dimension s"
  using renderBlockAt_keeps[of s color p idx cc]
  by (cases "renderBlockAt s color p idx cc") auto

lemma setBlockIn_elsewhere:
  assumes "setBlockIn H nb b s1 = (e, s2)" 
  shows "\<forall>q. q = nb \<or> blockAt (dimension s2) q = blockAt (dimension s1) q"
proof (cases "0 \<le> pz nb \<and> pz nb < H")
  case True
  then obtain d' where "setBlockIn H nb b s1 = (None, s1\<lparr>dimension := d'\<rparr>)"
    "\<forall>q. q \<noteq> nb \<longrightarrow> blockAt d' q = blockAt (dimension s1) q"
    using setBlockIn_ok[of nb H b s1] by blast
  then show ?thesis using assms by auto
next
  case False
  then have "setBlock H (dimension s1) nb b = Inl OutOfRange"
    by (intro setBlock_out_of_range) auto
  then show ?thesis using assms by (auto simp add: setBlockIn_def)
qed

lemma vertical_outcome:
  assumes sp: "clickedSprite s i j k = Some sp" and act: "isActive (keys s)"
    and key: "lastKey (keys s) = Some d" and d: "d = 5 \<or> d = 6"
  shows "(if isEmptyBlock (blockAt (dimension s) (neighborPos d (absolutePos (renderChunkHeight w) sp)))
            \<and> (if d = 5 then pz (absolutePos (renderChunkHeight w) sp) + 1 < renderChunkHeight w
                else pz (absolutePos (renderChunkHeight w) sp) - 1 > 0)
          then \<forall>q. q = neighborPos d (absolutePos (renderChunkHeight w) sp) \<or>
                 blockAt (dimension (snd (pointerdown w s i j k 0))) q = blockAt (dimension s) q
          else rengerGrid (snd (pointerdown w s i j k 0)) = rengerGrid s \<and>
               sameWorld (dimension s) (dimension (snd (pointerdown w s i j k 0))))"
proof -
  define nb where "nb = neighborPos d (absolutePos (renderChunkHeight w) sp)"
  define p' where "p' = (if d = 5 then (pos sp)\<lparr>ry := ry (pos sp) - 1\<rparr> else (pos sp)\<lparr>ry := ry (pos sp) + 1\<rparr>)"
  define guard where "guard = (if d = 5 then pz (absolutePos (renderChunkHeight w) sp) + 1 < renderChunkHeight w
                else pz (absolutePos (renderChunkHeight w) sp) - 1 > 0)"
  have eq: "pointerdown w s i j k 0 =
     (case getBlock (renderChunkHeight w) (dimension s) nb of
        Inl e \<Rightarrow> (Some e, s)
      | Inr (b, d1) \<Rightarrow>
          if isEmptyBlock b \<and> guard
          then andThen
                 (renderBlockAt (s\<lparr>dimension := d1\<rparr>) (selectedColor s) p' (int i, int j) (containerCenter sp))
                 (setBlockIn (renderChunkHeight w) nb (Block (selectedBlockType s)))
          else (None, s\<lparr>dimension := d1\<rparr>))"
    using d
  proof
    assume d5: "d = 5"
    show ?thesis
      unfolding pointerdown_key5[OF sp act key[unfolded d5]] nb_def d5 p'_def guard_def by simp
  next
    assume d6: "d = 6"
    show ?thesis
      unfolding pointerdown_key6[OF sp act key[unfolded d6]] nb_def d6 p'_def guard_def by simp
  qed
  have main: "(if isEmptyBlock (blockAt (dimension s) nb) \<and> guard
          then \<forall>q. q = nb \<or>
                 blockAt (dimension (snd (pointerdown w s i j k 0))) q = blockAt (dimension s) q
          else rengerGrid (snd (pointerdown w s i j k 0)) = rengerGrid s \<and>
               sameWorld (dimension s) (dimension (snd (pointerdown w s i j k 0))))"
  proof (cases "0 \<le> pz nb \<and> pz nb < renderChunkHeight w")
    case False
    then have "getBlock (renderChunkHeight w) (dimension s) nb = Inl OutOfRange"
      by (intro getBlock_out_of_range) auto
    then have "pointerdown w s i j k 0 = (Some OutOfRange, s)" by (simp add: eq)
    then show ?thesis by simp
  next
    case True
    then obtain d1 where g: "getBlock (renderChunkHeight w) (dimension s) nb = Inr (blockAt (dimension s) nb, d1)"
      and sw: "sameWorld (dimension s) d1"
      using getBlock_in_range[of nb "renderChunkHeight w" "dimension s"] by blast
    show ?thesis
    proof (cases "isEmptyBlock (blockAt (dimension s) nb) \<and> guard")
      case False
      then have "pointerdown w s i j k 0 = (None, s\<lparr>dimension := d1\<rparr>)" by (auto simp add: eq g)
      then show ?thesis using False sw by auto
    next
      case yes: True
      obtain e s1 where r: "renderBlockAt (s\<lparr>dimension := d1\<rparr>) (selectedColor s) p' (int i, int j) (containerCenter sp) = (e, s1)"
        and ds1: "dimension s1 = d1"
        using renderBlockAt_cases[of "s\<lparr>dimension := d1\<rparr>" "selectedColor s" p' "(int i, int j)" "containerCenter sp"]
        by auto
      have "\<forall>q. q = nb \<or> blockAt (dimension (snd (pointerdown w s i j k 0))) q = blockAt (dimension s) q"
      proof (cases e)
        case None
        obtain e2 s2 where s2: "setBlockIn (renderChunkHeight w) nb (Block (selectedBlockType s)) s1 = (e2, s2)"
          by (cases "setBlockIn (renderChunkHeight w) nb (Block (selectedBlockType s)) s1")
        have "pointerdown w s i j k 0 = (e2, s2)" using yes by (simp add: eq g r None s2)
        then show ?thesis
          using setBlockIn_elsewhere[OF s2] ds1 sameWorld_blockAt[OF sw] by auto
      next
        case (Some err)
        have "pointerdown w s i j k 0 = (Some err, s1)" using yes by (simp add: eq g r Some)
        then show ?thesis using ds1 sameWorld_blockAt[OF sw] by simp
      qed
      then show ?thesis using yes by simp
    qed
  qed
  then show ?thesis unfolding nb_def guard_def .
qed


lemmas example_defs = exampleScene_def exampleSprite_def exampleWindow_def exampleGround_def
  exampleSolid_def render0_def newSprite_def

lemma example_clicked: "clickedSprite (exampleScene gen key) 0 0 0 = Some exampleSprite"
  by (simp add: exampleScene_def clickedSprite_def jsIndex_def)

lemma example_color: "selectedColor (exampleScene gen key) = ''#00ff00''"
  by (simp add: exampleScene_def render0_def selectedColor_def colorMapper0_def)

lemma example_height: "renderChunkHeight exampleWindow = 16"
  by (simp add: renderChunkHeight_def exampleWindow_def)

lemma example_abs: "absolutePos 16 exampleSprite = \<lparr>px = - 4, py = - 4, pz = 0\<rparr>"
  by (simp add: absolutePos_record exampleSprite_def newSprite_def)

lemma example_container:
  "containerAt (exampleScene gen key) (0, 0) = Some \<lparr>indexPos = (0, 0), children = [exampleSprite]\<rparr>"
  by (simp add: containerAt_def exampleScene_def jsIndex_def)

lemma generateChunk_at: "generateChunk gen (chunkPosOf q) (localPosOf q) = gen q"
  by (cases q) (simp add: generateChunk_def chunkPosOf_def localPosOf_def)

lemma example_blockAt: "blockAt (dimension (exampleScene gen key)) q = gen q"
proof -
  have "viewChunk (dimension (exampleScene gen key)) c = generateChunk gen c" for c
    by (simp add: viewChunk_def exampleScene_def render0_def getChunkFromChunkPos_def Let_def)
  then show ?thesis by (simp add: blockAt_def generateChunk_at)
qed


lemma example_keys:
  "isActive (keys (exampleScene gen (Some d)))" "lastKey (keys (exampleScene gen (Some d))) = Some d"
  by (simp_all add: exampleScene_def)

lemma example_box:
  "rx (pos exampleSprite) = 0" "rz (pos exampleSprite) = 0" "containerCenter exampleSprite = (0, 0)"
  by (simp_all add: exampleSprite_def newSprite_def)

lemma example_texture:
  "selectedColor (exampleScene gen key) \<in> textures (exampleScene gen key) \<or>
   hexColorTest (selectedColor (exampleScene gen key))"
  by (simp add: example_color hexColorTest_def hexClass_def)

lemma example_target:
  assumes "d = 1 \<or> d = 5 \<or> d = 6"
  shows "containerAt (exampleScene gen key)
     (placeTarget (exampleScene gen key) 0 0 exampleSprite d
        (neighborPos d (absolutePos (renderChunkHeight exampleWindow) exampleSprite)))
     = Some \<lparr>indexPos = (0, 0), children = [exampleSprite]\<rparr>"
proof -
  have "insideBox (containerCenter exampleSprite)
      (neighborPos d (absolutePos (renderChunkHeight exampleWindow) exampleSprite))"
    using assms by (auto simp add: example_height example_abs example_box insideBox_def neighborPos_def)
  then have "placeTarget (exampleScene gen key) 0 0 exampleSprite d
        (neighborPos d (absolutePos (renderChunkHeight exampleWindow) exampleSprite)) = (0, 0)"
    by (simp add: placeTarget_def)
  then show ?thesis by (simp add: example_container)
qed







text \<open>
  C9. With key 5 or 6 latched, a click is a guarded no-op: unless the block at the target
  is empty and (for 5) \<open>z + 1 < H\<close>, respectively (for 6) \<open>z - 1 > 0\<close>, the handler
  leaves the grid as it is and the store with the same content (a read can only
  materialise a chunk). With key 6 no block at height 0 ever changes.
\<close>

theorem vertical_place_guarded:
  assumes sp: "clickedSprite s i j k = Some sp" and act: "isActive (keys s)"
    and key: "lastKey (keys s) = Some d"
  shows
    "(d = 5 \<and> \<not> (isEmptyBlock (blockAt (dimension s)
                      (neighborPos 5 (absolutePos (renderChunkHeight w) sp))) \<and>
                  pz (absolutePos (renderChunkHeight w) sp) + 1 < renderChunkHeight w) \<longrightarrow>
        rengerGrid (snd (pointerdown w s i j k 0)) = rengerGrid s \<and>
        sameWorld (dimension s) (dimension (snd (pointerdown w s i j k 0)))) \<and>
     (d = 6 \<and> \<not> (isEmptyBlock (blockAt (dimension s)
                      (neighborPos 6 (absolutePos (renderChunkHeight w) sp))) \<and>
                  pz (absolutePos (renderChunkHeight w) sp) - 1 > 0) \<longrightarrow>
        rengerGrid (snd (pointerdown w s i j k 0)) = rengerGrid s \<and>
        sameWorld (dimension s) (dimension (snd (pointerdown w s i j k 0)))) \<and>
     (d = 6 \<longrightarrow>
        (\<forall>q. pz q = 0 \<longrightarrow>
           blockAt (dimension (snd (pointerdown w s i j k 0))) q = blockAt (dimension s) q))"
proof (intro conjI impI)
  assume a: "d = 5 \<and> \<not> (isEmptyBlock (blockAt (dimension s)
                      (neighborPos 5 (absolutePos (renderChunkHeight w) sp))) \<and>
                  pz (absolutePos (renderChunkHeight w) sp) + 1 < renderChunkHeight w)"
  then have "rengerGrid (snd (pointerdown w s i j k 0)) = rengerGrid s \<and>
        sameWorld (dimension s) (dimension (snd (pointerdown w s i j k 0)))"
    using vertical_outcome[OF sp act key, of w] by (simp split: if_splits)
  then show "rengerGrid (snd (pointerdown w s i j k 0)) = rengerGrid s"
    "sameWorld (dimension s) (dimension (snd (pointerdown w s i j k 0)))" by simp_all
next
  assume a: "d = 6 \<and> \<not> (isEmptyBlock (blockAt (dimension s)
                      (neighborPos 6 (absolutePos (renderChunkHeight w) sp))) \<and>
                  pz (absolutePos (renderChunkHeight w) sp) - 1 > 0)"
  then have "rengerGrid (snd (pointerdown w s i j k 0)) = rengerGrid s \<and>
        sameWorld (dimension s) (dimension (snd (pointerdown w s i j k 0)))"
    using vertical_outcome[OF sp act key, of w] by (simp split: if_splits)
  then show "rengerGrid (snd (pointerdown w s i j k 0)) = rengerGrid s"
    "sameWorld (dimension s) (dimension (snd (pointerdown w s i j k 0)))" by simp_all
next
  assume d6: "d = 6"
  show "\<forall>q. pz q = 0 \<longrightarrow>
           blockAt (dimension (snd (pointerdown w s i j k 0))) q = blockAt (dimension s) q"
  proof (intro allI impI)
    fix q :: BlockPos assume q: "pz q = 0"
    show "blockAt (dimension (snd (pointerdown w s i j k 0))) q = blockAt (dimension s) q"
    proof (cases "isEmptyBlock (blockAt (dimension s) (neighborPos 6 (absolutePos (renderChunkHeight w) sp)))
            \<and> pz (absolutePos (renderChunkHeight w) sp) - 1 > 0")
      case True
      then have "q \<noteq> neighborPos 6 (absolutePos (renderChunkHeight w) sp)"
        using q by (auto simp add: neighborPos_def)
      then show ?thesis
        using vertical_outcome[OF sp act key, of w] True d6 by auto
    next
      case False
      then have "sameWorld (dimension s) (dimension (snd (pointerdown w s i j k 0)))"
        using vertical_outcome[OF sp act key, of w] d6 by (simp split: if_splits)
      then show ?thesis by (rule sameWorld_blockAt)
    qed
  qed
qed

theorem vertical_place_guarded_witness:
  "clickedSprite (exampleScene exampleSolid (Some 5)) 0 0 0 = Some exampleSprite \<and>
   lastKey (keys (exampleScene exampleSolid (Some 5))) = Some 5 \<and>
   blockAt (dimension (exampleScene exampleSolid (Some 5))) \<lparr>px = - 4, py = - 4, pz = 1\<rparr>
     = Block ''stone'' \<and>
   rengerGrid (snd (pointerdown exampleWindow (exampleScene exampleSolid (Some 5)) 0 0 0 0))
     = rengerGrid (exampleScene exampleSolid (Some 5)) \<and>
   sameWorld (dimension (exampleScene exampleSolid (Some 5)))
     (dimension (snd (pointerdown exampleWindow (exampleScene exampleSolid (Some 5)) 0 0 0 0))) \<and>
   lastKey (keys (exampleScene exampleGround (Some 6))) = Some 6 \<and>
   pz (absolutePos (renderChunkHeight exampleWindow) exampleSprite) = 0 \<and>
   rengerGrid (snd (pointerdown exampleWindow (exampleScene exampleGround (Some 6)) 0 0 0 0))
     = rengerGrid (exampleScene exampleGround (Some 6)) \<and>
   sameWorld (dimension (exampleScene exampleGround (Some 6)))
     (dimension (snd (pointerdown exampleWindow (exampleScene exampleGround (Some 6)) 0 0 0 0))) \<and>
   blockAt (dimension (snd (pointerdown exampleWindow (exampleScene exampleGround (Some 6)) 0 0 0 0)))
       \<lparr>px = - 4, py = - 4, pz = 0\<rparr>
     = blockAt (dimension (exampleScene exampleGround (Some 6))) \<lparr>px = - 4, py = - 4, pz = 0\<rparr>"
proof -
  have n5: "neighborPos 5 (absolutePos 16 exampleSprite) = \<lparr>px = - 4, py = - 4, pz = 1\<rparr>"
    by (simp add: example_height example_abs neighborPos_def)
  have solid: "blockAt (dimension (exampleScene exampleSolid (Some 5))) \<lparr>px = - 4, py = - 4, pz = 1\<rparr>
     = Block ''stone''"
    by (simp add: example_blockAt exampleSolid_def)
  have a: "rengerGrid (snd (pointerdown exampleWindow (exampleScene exampleSolid (Some 5)) 0 0 0 0))
       = rengerGrid (exampleScene exampleSolid (Some 5)) \<and>
     sameWorld (dimension (exampleScene exampleSolid (Some 5)))
       (dimension (snd (pointerdown exampleWindow (exampleScene exampleSolid (Some 5)) 0 0 0 0)))"
    using vertical_place_guarded [where s = "exampleScene exampleSolid (Some 5)" and d = 5 and w = exampleWindow
          and i = 0 and j = 0 and k = 0 and sp = exampleSprite,
        OF example_clicked example_keys] solid
    by (simp add: example_height n5)
  have b: "rengerGrid (snd (pointerdown exampleWindow (exampleScene exampleGround (Some 6)) 0 0 0 0))
       = rengerGrid (exampleScene exampleGround (Some 6)) \<and>
     sameWorld (dimension (exampleScene exampleGround (Some 6)))
       (dimension (snd (pointerdown exampleWindow (exampleScene exampleGround (Some 6)) 0 0 0 0))) \<and>
     blockAt (dimension (snd (pointerdown exampleWindow (exampleScene exampleGround (Some 6)) 0 0 0 0)))
         \<lparr>px = - 4, py = - 4, pz = 0\<rparr>
       = blockAt (dimension (exampleScene exampleGround (Some 6))) \<lparr>px = - 4, py = - 4, pz = 0\<rparr>"
    using vertical_place_guarded [where s = "exampleScene exampleGround (Some 6)" and d = 6 and w = exampleWindow
          and i = 0 and j = 0 and k = 0 and sp = exampleSprite,
        OF example_clicked example_keys]
    by (simp add: example_height example_abs)
  show ?thesis
    using a b solid by (simp add: example_clicked example_keys example_height example_abs)
qed

end
